theory Spec2Isabelle
  imports Main
begin

section \<open>Data model\<close>

text \<open>
  Paths are JavaScript strings. The functions of Node's \<open>path\<close> module are not part of
  the repository; the functions below take the ones they call as parameters.
\<close>

type_synonym path = string

text \<open>
  Values as \<open>js-yaml\<close> hands them to the validators, where the code expects a scalar.
  Numbers are the integers; \<open>JUndefined\<close> is what a missing property reads as; \<open>JObject\<close>
  is any sequence or mapping in such a place: it is truthy, it is not a string, and it is
  not \<open>===\<close> to any scalar.
\<close>

datatype jsval = JUndefined | JNull | JBool bool | JNum int | JStr string | JObject

fun truthy :: "jsval \<Rightarrow> bool" where
  "truthy JUndefined = False"
| "truthy JNull = False"
| "truthy (JBool b) = b"
| "truthy (JNum n) = (n \<noteq> 0)"
| "truthy (JStr s) = (s \<noteq> [])"
| "truthy JObject = True"

text \<open>
  The exceptions that leave a method: a \<open>TypeError\<close> with its message, the rejection of
  \<open>fs.readFile\<close> for a path, and an \<open>Error\<close> thrown by the tool itself.
\<close>

datatype js_error = TypeError string | ReadError path | JsError string

text \<open>
  How a call ends: it returns a value, it throws (an \<open>async\<close> method rejects), or it
  never returns.
\<close>

datatype 'a outcome = Returns 'a | Throws js_error | Diverges

text \<open>A string-valued property that may be absent; the empty string is falsy.\<close>

fun truthy_str :: "string option \<Rightarrow> bool" where
  "truthy_str None = False"
| "truthy_str (Some s) = (s \<noteq> [])"

text \<open>
  A mapping that is the value of an entry of a document's \<open>structure\<close> (\<open>itemInfo\<close> /
  \<open>info\<close>). A string property is \<open>None\<close> when absent; \<open>lmay_file\<close> and \<open>file_count\<close> are
  any value, \<open>JUndefined\<close> when absent.
\<close>

record item_info =
  item_path :: "string option"
  item_type :: "string option"
  lmay_file :: jsval
  file_count :: jsval
  primary_language :: "string option"

text \<open>
  The value of an entry of \<open>structure\<close>: \<open>null\<close> (as for the YAML line \<open>src:\<close>), on which
  every property read throws a \<open>TypeError\<close>, or a mapping. (A scalar or a sequence as the
  value reads every property used here as \<open>undefined\<close>, like a mapping without them.)
\<close>

datatype structure_entry = NullEntry | Entry item_info

record hierarchy_meta =
  h_depth :: jsval
  h_parent :: "string option"

text \<open>
  A parsed document: the \<open>structure\<close> mapping in key order (\<open>Object.entries\<close>) and the
  optional \<open>hierarchy\<close> mapping. An absent property is \<open>None\<close>.
\<close>

record lmay_doc =
  doc_structure :: "(string \<times> structure_entry) list option"
  doc_hierarchy :: "hierarchy_meta option"

text \<open>
  What \<open>yaml.load\<close> returns: a mapping, or a value without properties of its own that the
  validators read (a scalar; a sequence is \<open>Scalar JObject\<close>).
\<close>

datatype parsed = Scalar jsval | Doc lmay_doc

fun truthy_parsed :: "parsed \<Rightarrow> bool" where
  "truthy_parsed (Scalar v) = truthy v"
| "truthy_parsed (Doc d) = True"

text \<open>\<open>data.structure\<close>: a property read on a scalar gives \<open>undefined\<close>.\<close>

fun structure_of :: "parsed \<Rightarrow> (string \<times> structure_entry) list option" where
  "structure_of (Scalar v) = None"
| "structure_of (Doc d) = doc_structure d"

fun hierarchy_of :: "parsed \<Rightarrow> hierarchy_meta option" where
  "hierarchy_of (Scalar v) = None"
| "hierarchy_of (Doc d) = doc_hierarchy d"

text \<open>
  A finding (error or warning). The human-readable \<open>message\<close> is left out; \<open>f_path\<close> is the
  JSON-pointer-like \<open>path\<close> property, \<open>f_cycle\<close> and \<open>f_level\<close> are the extra properties of
  \<open>circular_reference\<close> and \<open>unbalanced_hierarchy\<close>.
\<close>

record finding =
  f_type :: string
  f_file :: "path option"
  f_path :: "string option"
  f_cycle :: "path list option"
  f_level :: "nat option"

definition mk_finding :: "string \<Rightarrow> path option \<Rightarrow> string option \<Rightarrow> finding" where
  "mk_finding t f p =
     \<lparr>f_type = t, f_file = f, f_path = p, f_cycle = None, f_level = None\<rparr>"

text \<open>The object returned by each validator's \<open>generateReport\<close>.\<close>

record report =
  rep_valid :: bool
  rep_errorCount :: nat
  rep_warningCount :: nat
  rep_errors :: "finding list"
  rep_warnings :: "finding list"

definition generateReport :: "finding list \<Rightarrow> finding list \<Rightarrow> report" where
  "generateReport es ws =
     \<lparr>rep_valid = (length es = 0), rep_errorCount = length es, rep_warningCount = length ws,
      rep_errors = es, rep_warnings = ws\<rparr>"

record summary_entry =
  s_errorCount :: nat
  s_warningCount :: nat
  s_valid :: "bool option"

text \<open>\<open>LMAYValidator.results\<close>.\<close>

record results =
  valid :: bool
  errors :: "finding list"
  warnings :: "finding list"
  summary :: "string \<rightharpoonup> summary_entry"

section \<open>YAMLValidator.validateFile\<close>

datatype fs_entry = Readable string | Unreadable

text \<open>
  The environment of a run: the files that exist (with their content, or unreadable),
  \<open>yaml.load\<close> of js-yaml (the warnings its \<open>onWarning\<close> callback pushed, then
  \<open>Inl\<close> for a \<open>YAMLException\<close> or \<open>Inr\<close> for the parsed content), and the warnings
  that \<open>performAdditionalChecks\<close> derives from the raw text (it pushes warnings only).
\<close>

record env =
  files :: "(path \<times> fs_entry) list"
  yaml_load :: "string \<Rightarrow> path \<Rightarrow> finding list \<times> (unit + parsed)"
  additional_warnings :: "string \<Rightarrow> path \<Rightarrow> finding list"

text \<open>White space removed by \<open>String.prototype.trim\<close>, on 8-bit characters.\<close>

definition js_space :: "char \<Rightarrow> bool" where
  "js_space c = (c \<in> {CHR 0x09, CHR 0x0A, CHR 0x0B, CHR 0x0C, CHR 0x0D, CHR 0x20, CHR 0xA0})"

definition trim_empty :: "string \<Rightarrow> bool" where
  "trim_empty content = list_all js_space content"

definition js_false :: parsed where
  "js_false = Scalar (JBool False)"

text \<open>
  Returns the value returned by the method together with the validator's report
  (\<open>this.errors\<close> and \<open>this.warnings\<close> are reset at the start of every call).
\<close>

definition yaml_validateFile :: "env \<Rightarrow> path \<Rightarrow> parsed \<times> report" where
  "yaml_validateFile e filePath =
     (case map_of (files e) filePath of
        None \<Rightarrow>
          (js_false, generateReport [mk_finding ''file_not_found'' (Some filePath) None] [])
      | Some Unreadable \<Rightarrow>
          (js_false, generateReport [mk_finding ''file_read_error'' (Some filePath) None] [])
      | Some (Readable content) \<Rightarrow>
          if trim_empty content then
            (js_false, generateReport [mk_finding ''empty_file'' (Some filePath) None] [])
          else
            (case yaml_load e content filePath of
               (ws, Inl ex) \<Rightarrow>
                 (js_false,
                  generateReport [mk_finding ''yaml_syntax_error'' (Some filePath) None] ws)
             | (ws, Inr parsedContent) \<Rightarrow>
                 (parsedContent,
                  generateReport [] (ws @ additional_warnings e content filePath))))"

section \<open>LMAYValidator: merging and finalising\<close>

definition resetResults :: results where
  "resetResults = \<lparr>valid = False, errors = [], warnings = [], summary = Map.empty\<rparr>"

definition mergeResults :: "report \<Rightarrow> string \<Rightarrow> results \<Rightarrow> results" where
  "mergeResults rep validatorType r =
     r\<lparr>errors := errors r @ rep_errors rep,
       warnings := warnings r @ rep_warnings rep,
       summary := (summary r)(validatorType \<mapsto>
          \<lparr>s_errorCount = rep_errorCount rep, s_warningCount = rep_warningCount rep,
           s_valid = Some (rep_valid rep)\<rparr>)\<rparr>"

definition finalizeResults :: "results \<Rightarrow> results" where
  "finalizeResults r =
     (let v = (length (errors r) = 0) in
      r\<lparr>valid := v,
        summary := (summary r)(''total'' \<mapsto>
          \<lparr>s_errorCount = length (errors r), s_warningCount = length (warnings r),
           s_valid = Some v\<rparr>)\<rparr>)"

text \<open>
  \<open>LMAYValidator.validateFile\<close>. The schema validator is the parameter \<open>schema_report\<close>:
  how \<open>SchemaValidator.validateLMAY\<close> ends on a parsed document and, when it returns, the
  report that \<open>generateReport\<close> gives then. An exception of the schema validator leaves
  \<open>validateFile\<close> as it is not caught there.
\<close>

definition validateFile ::
  "env \<Rightarrow> (parsed \<Rightarrow> path \<Rightarrow> report outcome) \<Rightarrow> path \<Rightarrow> results outcome" where
  "validateFile e schema_report filePath =
     (let (parsedContent, yrep) = yaml_validateFile e filePath;
          r1 = mergeResults yrep ''yaml'' resetResults
      in if \<not> truthy_parsed parsedContent then Returns (finalizeResults r1)
         else
           (case schema_report parsedContent filePath of
              Returns srep \<Rightarrow> Returns (finalizeResults (mergeResults srep ''schema'' r1))
            | Throws err \<Rightarrow> Throws err
            | Diverges \<Rightarrow> Diverges))"

section \<open>LMAYValidator: the hierarchy\<close>

text \<open>The functions of Node's \<open>path\<close> module that the validators call.\<close>

record path_ops =
  p_join :: "path \<Rightarrow> string \<Rightarrow> path"
  p_resolve :: "path \<Rightarrow> string \<Rightarrow> path"
  p_dirname :: "path \<Rightarrow> path"
  p_relative :: "path \<Rightarrow> path \<Rightarrow> string"

text \<open>
  A node of the hierarchy tree. The \<open>parent\<close> property (an object reference) is kept as
  the parent's \<open>file\<close>, which is all that is read from it.
\<close>

datatype hnode =
  HNode (n_file: path) (n_data: parsed) (n_children: "hnode list") (n_depth: nat)
        (n_parent: "path option") (n_parentKey: "string option")

text \<open>
  What leaves \<open>buildHierarchyTree\<close> as an exception: its two \<open>Error\<close>s, and the
  \<open>TypeError\<close> of reading \<open>lmay_file\<close> from an entry of \<open>structure\<close> that is \<open>null\<close>.
\<close>

datatype build_error = CircularReference path | CannotParse path | NullEntryError

lemma truthy_validateFile_exists:
  "truthy_parsed (fst (yaml_validateFile e p)) \<Longrightarrow> p \<in> fst ` set (files e)"
proof -
  assume t: "truthy_parsed (fst (yaml_validateFile e p))"
  have "map_of (files e) p \<noteq> None"
  proof
    assume "map_of (files e) p = None"
    then have "fst (yaml_validateFile e p) = js_false"
      by (simp add: yaml_validateFile_def)
    with t show False by (simp add: js_false_def)
  qed
  then show ?thesis by (simp add: map_of_eq_None_iff)
qed

text \<open>
  \<open>buildHierarchyTree\<close> and the \<open>for\<close> loop over the entries of \<open>structure\<close> in it.
  \<open>visited\<close> is a \<open>Set\<close>; the loop receives the set after \<open>visited.add(rootPath)\<close> and
  every recursive call gets a copy (\<open>new Set(visited)\<close>), so the callee's additions are not
  seen by the caller. \<open>nodeDepth\<close> is \<open>node.depth\<close> as the loop reads it: the \<open>depth: 0\<close> of
  the object literal, since nothing assigns \<open>node.depth\<close> before the loop has ended.

  The test \<open>if (itemInfo.lmay_file)\<close> stands outside the \<open>try\<close>: on a \<open>null\<close> entry it
  throws, and the exception leaves \<open>buildHierarchyTree\<close>.
  Inside the \<open>try\<close>, \<open>path.resolve\<close> throws a \<open>TypeError\<close> for an \<open>lmay_file\<close> that is not
  a string; this exception and every exception of the recursive call are caught by the
  empty \<open>catch\<close>, and the loop goes on with the next entry.
\<close>

function buildHierarchyTree ::
    "env \<Rightarrow> path_ops \<Rightarrow> path \<Rightarrow> string \<Rightarrow> path set \<Rightarrow> build_error + hnode"
  and buildChildren ::
    "env \<Rightarrow> path_ops \<Rightarrow> path \<Rightarrow> path \<Rightarrow> nat \<Rightarrow> path set \<Rightarrow> (string \<times> structure_entry) list
       \<Rightarrow> build_error + hnode list"
  where
  "buildHierarchyTree e po projectPath rootFile visited =
     (let rootPath = p_join po projectPath rootFile in
      if rootPath \<in> visited then Inl (CircularReference rootPath)
      else
        let parsedContent = fst (yaml_validateFile e rootPath) in
        if \<not> truthy_parsed parsedContent then Inl (CannotParse rootPath)
        else
          (case structure_of parsedContent of
             None \<Rightarrow> Inr (HNode rootPath parsedContent [] 0 None None)
           | Some entries \<Rightarrow>
               (case buildChildren e po projectPath rootPath 0 (insert rootPath visited)
                       entries of
                  Inl err \<Rightarrow> Inl err
                | Inr children \<Rightarrow> Inr (HNode rootPath parsedContent children 0 None None))))"
| "buildChildren e po projectPath rootPath nodeDepth visited [] = Inr []"
| "buildChildren e po projectPath rootPath nodeDepth visited ((itemName, NullEntry) # rest) =
     Inl NullEntryError"
| "buildChildren e po projectPath rootPath nodeDepth visited ((itemName, Entry itemInfo) # rest) =
     (if truthy (lmay_file itemInfo) then
        (case lmay_file itemInfo of
           JStr f \<Rightarrow>
             (let childPath = p_resolve po (p_dirname po rootPath) f in
              case buildHierarchyTree e po projectPath (p_relative po projectPath childPath)
                     visited of
                Inl err \<Rightarrow> buildChildren e po projectPath rootPath nodeDepth visited rest
              | Inr childNode \<Rightarrow>
                  (case buildChildren e po projectPath rootPath nodeDepth visited rest of
                     Inl err \<Rightarrow> Inl err
                   | Inr others \<Rightarrow>
                       Inr (HNode (n_file childNode) (n_data childNode) (n_children childNode)
                              (nodeDepth + 1) (Some rootPath) (Some itemName)
                            # others)))
         | _ \<Rightarrow> buildChildren e po projectPath rootPath nodeDepth visited rest)
      else buildChildren e po projectPath rootPath nodeDepth visited rest)"
  by pat_completeness auto
termination
proof (relation "measures
    [\<lambda>x. case x of
        Inl (e, po, pp, rf, visited) \<Rightarrow> card (fst ` set (files e) - visited)
      | Inr (e, po, pp, rp, nd, visited, es) \<Rightarrow> card (fst ` set (files e) - visited),
     \<lambda>x. case x of Inl _ \<Rightarrow> 0 | Inr (e, po, pp, rp, nd, visited, es) \<Rightarrow> Suc (length es)]",
    goal_cases)
  case 1
  show ?case by simp
next
  case (2 e po projectPath rootFile visited rootPath parsedContent entries)
  then have "rootPath \<in> fst ` set (files e)" "rootPath \<notin> visited"
    using truthy_validateFile_exists by auto
  then have "card (fst ` set (files e) - insert rootPath visited)
      < card (fst ` set (files e) - visited)"
    by (intro psubset_card_mono) auto
  then show ?case by simp
qed auto

text \<open>\<open>validateHierarchyMetadata\<close>: the errors it pushes for a node with hierarchy metadata.\<close>

definition validateHierarchyMetadata :: "path_ops \<Rightarrow> hnode \<Rightarrow> hierarchy_meta \<Rightarrow> finding list" where
  "validateHierarchyMetadata po node hier =
     (if h_depth hier \<noteq> JUndefined \<and> h_depth hier \<noteq> JNum (int (n_depth node))
      then [mk_finding ''incorrect_hierarchy_depth'' (Some (n_file node)) (Some ''/hierarchy/depth'')]
      else [])
     @
     (case n_parent node of
        None \<Rightarrow> []
      | Some parentFile \<Rightarrow>
          if truthy_str (h_parent hier)
             \<and> the (h_parent hier) \<noteq> p_relative po (p_dirname po (n_file node)) parentFile
          then [mk_finding ''incorrect_parent_reference'' (Some (n_file node))
                  (Some ''/hierarchy/parent'')]
          else [])"

text \<open>
  \<open>validateHierarchyConsistency\<close>, threading the two arrays \<open>errors\<close> and \<open>warnings\<close>.
\<close>

fun validateHierarchyConsistency ::
    "path_ops \<Rightarrow> nat \<Rightarrow> hnode \<Rightarrow> finding list \<times> finding list \<Rightarrow> finding list \<times> finding list"
  where
  "validateHierarchyConsistency po maxDepth (HNode file data children depth parent parentKey)
       (errs, warns) =
     (let node = HNode file data children depth parent parentKey;
          warns1 =
            (if n_depth node > maxDepth
             then warns @ [mk_finding ''excessive_hierarchy_depth'' (Some (n_file node)) None]
             else warns);
          errs1 =
            (case hierarchy_of (n_data node) of
               None \<Rightarrow> errs
             | Some hier \<Rightarrow> errs @ validateHierarchyMetadata po node hier)
      in fold (validateHierarchyConsistency po maxDepth) children (errs1, warns1))"

text \<open>
  \<open>levelCounts\<close>: an object keyed by depth. \<open>bump\<close> is
  \<open>levelCounts[d] = (levelCounts[d] || 0) + 1\<close>.
\<close>

type_synonym level_counts = "(nat \<times> nat) list"

fun bump :: "nat \<Rightarrow> level_counts \<Rightarrow> level_counts" where
  "bump d [] = [(d, 1)]"
| "bump d ((k, c) # rest) = (if k = d then (k, c + 1) # rest else (k, c) # bump d rest)"

text \<open>The loop of \<open>analyzeDepthDistribution\<close> over consecutive entries of \<open>levels\<close>.\<close>

fun unbalanced_loop :: "level_counts \<Rightarrow> nat list \<Rightarrow> finding list" where
  "unbalanced_loop lc (previousLevel # currentLevel # rest) =
     (if the (map_of lc currentLevel) > the (map_of lc previousLevel) * 3
      then [\<lparr>f_type = ''unbalanced_hierarchy'', f_file = None, f_path = None, f_cycle = None,
             f_level = Some currentLevel\<rparr>]
      else [])
     @ unbalanced_loop lc (currentLevel # rest)"
| "unbalanced_loop lc levels = []"

definition analyzeDepthDistribution :: "level_counts \<Rightarrow> finding list \<Rightarrow> finding list" where
  "analyzeDepthDistribution levelCounts warns =
     (let levels = sort (map fst levelCounts);
          maxLevel = fold max levels 0;
          warns1 =
            (if maxLevel \<le> 1 \<and> (case map_of levelCounts 1 of None \<Rightarrow> False | Some c \<Rightarrow> c > 10)
             then warns @ [mk_finding ''flat_hierarchy'' None None]
             else warns)
      in warns1 @ unbalanced_loop levelCounts levels)"

text \<open>\<open>validateDepthLevels\<close>, threading \<open>levelCounts\<close> and \<open>warnings\<close>.\<close>

fun validateDepthLevels :: "hnode \<Rightarrow> level_counts \<times> finding list \<Rightarrow> level_counts \<times> finding list"
  where
  "validateDepthLevels (HNode file data children depth parent parentKey) (levelCounts, warns) =
     (let (lc1, warns1) = fold validateDepthLevels children (bump depth levelCounts, warns)
      in if depth = 0 then (lc1, analyzeDepthDistribution lc1 warns1)
         else (lc1, warns1))"

text \<open>
  \<open>validateHierarchy\<close>: the hierarchy errors and warnings that it appends to the results.
\<close>

definition hierarchyFindings ::
    "env \<Rightarrow> path_ops \<Rightarrow> path \<Rightarrow> string \<Rightarrow> finding list \<times> finding list" where
  "hierarchyFindings e po projectPath rootFile =
     (case buildHierarchyTree e po projectPath rootFile {} of
        Inl err \<Rightarrow>
          ([mk_finding ''hierarchy_build_error'' (Some (p_join po projectPath rootFile)) None], [])
      | Inr hierarchyTree \<Rightarrow>
          (let (errs, warns) = validateHierarchyConsistency po 10 hierarchyTree ([], []);
               (lc, warns2) = validateDepthLevels hierarchyTree ([], warns)
           in (errs, warns2)))"

definition validateHierarchy :: "env \<Rightarrow> path_ops \<Rightarrow> path \<Rightarrow> string \<Rightarrow> results \<Rightarrow> results" where
  "validateHierarchy e po projectPath rootFile r =
     (let (hierarchyErrors, hierarchyWarnings) = hierarchyFindings e po projectPath rootFile in
      r\<lparr>errors := errors r @ hierarchyErrors,
        warnings := warnings r @ hierarchyWarnings,
        summary := (summary r)(''hierarchy'' \<mapsto>
          \<lparr>s_errorCount = length hierarchyErrors, s_warningCount = length hierarchyWarnings,
           s_valid = None\<rparr>)\<rparr>)"

text \<open>
  \<open>LMAYValidator.validateProject\<close>. The reference validator is the parameter
  \<open>reference_report\<close>: how \<open>ReferenceValidator.validateProject\<close> ends and, when it returns,
  the report that \<open>generateReport\<close> gives then. It need not return: its
  \<open>validateFileReferences\<close> and \<open>validateLMAYFileReference\<close> call each other without end on
  documents that link to each other in a cycle.
\<close>

record options =
  strict :: bool
  checkReferences :: bool
  checkHierarchy :: bool

definition validateProject ::
    "env \<Rightarrow> path_ops \<Rightarrow> options \<Rightarrow> (parsed \<Rightarrow> path \<Rightarrow> report outcome)
       \<Rightarrow> (path \<Rightarrow> string \<Rightarrow> report outcome) \<Rightarrow> path \<Rightarrow> string \<Rightarrow> results outcome" where
  "validateProject e po opts schema_report reference_report projectPath rootFile =
     (let rootFilePath = p_join po projectPath rootFile in
      case validateFile e schema_report rootFilePath of
        Throws err \<Rightarrow> Throws err
      | Diverges \<Rightarrow> Diverges
      | Returns rootValid \<Rightarrow>
          if \<not> valid rootValid \<and> \<not> strict opts then Returns (finalizeResults rootValid)
          else
            (case (if checkReferences opts
                   then (case reference_report projectPath rootFile of
                           Returns rrep \<Rightarrow> Returns (mergeResults rrep ''references'' rootValid)
                         | Throws err \<Rightarrow> Throws err
                         | Diverges \<Rightarrow> Diverges)
                   else Returns rootValid) of
               Throws err \<Rightarrow> Throws err
             | Diverges \<Rightarrow> Diverges
             | Returns r1 \<Rightarrow>
                 Returns (finalizeResults
                            (if checkHierarchy opts
                             then validateHierarchy e po projectPath rootFile r1
                             else r1))))"

section \<open>The command line: validateLMAY\<close>

text \<open>
  What the command line tool needs beyond \<open>env\<close>: \<open>process.cwd()\<close>, \<open>path.resolve\<close> of one
  argument, whether \<open>fs.writeFileSync\<close> to a path succeeds (it throws otherwise), and whether
  \<open>new LMAYValidator\<close> returns (the constructor of \<open>SchemaValidator\<close> throws when the schema
  file cannot be read, parsed or compiled).
\<close>

record cli_env =
  cwd :: path
  resolve_cwd :: "string \<Rightarrow> path"
  writable :: "path \<Rightarrow> bool"
  schema_loads :: bool

text \<open>
  The options that bear on validation and on the exit: \<open>options.project\<close>,
  \<open>options.strict\<close>, \<open>options.references !== false\<close>, \<open>options.hierarchy !== false\<close> and
  \<open>options.output\<close>. (\<open>verbose\<close> and \<open>format\<close> change what is printed and written; \<open>fix\<close>
  rewrites files after the validation, inside handlers that catch every exception.)
\<close>

record cli_options =
  o_project :: "string option"
  o_strict :: bool
  o_references :: bool
  o_hierarchy :: bool
  o_output :: "string option"

text \<open>
  The validation that \<open>validateLMAY(file, options)\<close> runs, once the validator has been
  constructed: a project when \<open>options.project\<close> is given, or when no file is given and
  \<open>root.lmay\<close> exists in the working directory; otherwise a single file, which must exist.
\<close>

definition validation_run ::
    "env \<Rightarrow> path_ops \<Rightarrow> cli_env \<Rightarrow> (parsed \<Rightarrow> path \<Rightarrow> report outcome)
       \<Rightarrow> (path \<Rightarrow> string \<Rightarrow> report outcome) \<Rightarrow> string option \<Rightarrow> cli_options
       \<Rightarrow> results outcome" where
  "validation_run e po ce schema_report reference_report file opts =
     (let isProjectMode =
            (truthy_str (o_project opts)
             \<or> (\<not> truthy_str file \<and> map_of (files e) ''root.lmay'' \<noteq> None));
          validatorOptions =
            \<lparr>strict = o_strict opts, checkReferences = o_references opts,
             checkHierarchy = o_hierarchy opts\<rparr>
      in if \<not> schema_loads ce then Throws (JsError ''Impossible de charger le schema LMAY'')
         else if isProjectMode then
           validateProject e po validatorOptions schema_report reference_report
             (if truthy_str (o_project opts) then the (o_project opts) else cwd ce)
             (if truthy_str file then the file else ''root.lmay'')
         else
           (let filePath = resolve_cwd ce (if truthy_str file then the file else ''root.lmay'')
            in if map_of (files e) filePath = None then Throws (JsError ''Fichier introuvable'')
               else validateFile e schema_report filePath))"

text \<open>\<open>saveReport\<close> is called when \<open>options.output\<close> is given, and throws when the write fails.\<close>

definition report_saved :: "cli_env \<Rightarrow> cli_options \<Rightarrow> bool" where
  "report_saved ce opts =
     (if truthy_str (o_output opts) then writable ce (the (o_output opts)) else True)"

text \<open>
  How the command ends: by one of its two calls of \<open>process.exit\<close>, with the code passed,
  or by neither of them when the validation does not return.
\<close>

datatype cli_exit = Exit nat | NoExit

text \<open>
  The action of the command: \<open>validateLMAY\<close> ends with
  \<open>process.exit(results.valid ? 0 : 1)\<close>; an exception on the way (the missing file, a
  validator that throws, the report that cannot be written) reaches the \<open>catch\<close> of the
  action, which ends with \<open>process.exit(1)\<close>.
\<close>

definition validateLMAY ::
    "env \<Rightarrow> path_ops \<Rightarrow> cli_env \<Rightarrow> (parsed \<Rightarrow> path \<Rightarrow> report outcome)
       \<Rightarrow> (path \<Rightarrow> string \<Rightarrow> report outcome) \<Rightarrow> string option \<Rightarrow> cli_options
       \<Rightarrow> cli_exit" where
  "validateLMAY e po ce schema_report reference_report file opts =
     (case validation_run e po ce schema_report reference_report file opts of
        Diverges \<Rightarrow> NoExit
      | Throws err \<Rightarrow> Exit 1
      | Returns res \<Rightarrow>
          if report_saved ce opts then Exit (if valid res then 0 else 1) else Exit 1)"

section \<open>ReferenceValidator\<close>

text \<open>
  The validator's state: \<open>this.errors\<close>, \<open>this.warnings\<close> and the cache \<open>this.fileMap\<close>, a
  \<open>Map\<close> from the path given to \<open>loadLMAYFile\<close> to the parsed content, in insertion order.
\<close>

type_synonym file_map = "(path \<times> parsed) list"

record ref_state =
  rv_errors :: "finding list"
  rv_warnings :: "finding list"
  fileMap :: file_map

text \<open>
  \<open>loadLMAYFile\<close>: the returned value and the new state. A failure of \<open>readFileSync\<close> or of
  \<open>yaml.load\<close> pushes \<open>file_load_error\<close> and returns \<open>null\<close> without touching the cache.
\<close>

definition loadLMAYFile :: "env \<Rightarrow> path \<Rightarrow> ref_state \<Rightarrow> parsed \<times> ref_state" where
  "loadLMAYFile e filePath st =
     (case map_of (fileMap st) filePath of
        Some cached \<Rightarrow> (cached, st)
      | None \<Rightarrow>
          (case (case map_of (files e) filePath of
                   Some (Readable content) \<Rightarrow> snd (yaml_load e content filePath)
                 | _ \<Rightarrow> Inl ()) of
             Inr data \<Rightarrow> (data, st\<lparr>fileMap := fileMap st @ [(filePath, data)]\<rparr>)
           | Inl ex \<Rightarrow>
               (Scalar JNull,
                st\<lparr>rv_errors := rv_errors st
                     @ [mk_finding ''file_load_error'' (Some filePath) None]\<rparr>)))"

text \<open>A run of later calls of \<open>loadLMAYFile\<close>, each with the file system of its moment.\<close>

fun loads :: "(env \<times> path) list \<Rightarrow> ref_state \<Rightarrow> ref_state" where
  "loads [] st = st"
| "loads ((e, filePath) # rest) st = loads rest (snd (loadLMAYFile e filePath st))"

subsection \<open>Circular references\<close>

text \<open>
  In \<open>detectCircularReferencesRecursive\<close> the fourth parameter is named \<open>path\<close>. Inside the
  method the identifier \<open>path\<close> is therefore that array of file paths and not the module
  required at the top of the file. An array has neither a \<open>dirname\<close> nor a \<open>resolve\<close>
  property, so the expression
  \<open>path.resolve(path.dirname(filePath), itemInfo.lmay_file)\<close> throws a \<open>TypeError\<close>.
\<close>

definition shadowed_path_resolve :: "path list \<Rightarrow> path \<Rightarrow> jsval \<Rightarrow> js_error + path" where
  "shadowed_path_resolve pathArray filePath ref =
     Inl (TypeError ''path.dirname is not a function'')"

text \<open>
  The \<open>TypeError\<close> of reading \<open>itemInfo.lmay_file\<close> when \<open>itemInfo\<close> is \<open>null\<close>, and the one
  that \<open>path.resolve\<close> of the module throws for an argument that is not a string (the
  messages without their quotation marks).
\<close>

definition null_read_error :: js_error where
  "null_read_error = TypeError ''Cannot read properties of null (reading lmay_file)''"


record cyc_state =
  cs_errors :: "finding list"
  cs_visited :: "path set"
  cs_stack :: "path set"

definition circular_reference :: "path \<Rightarrow> string \<Rightarrow> path list \<Rightarrow> finding" where
  "circular_reference filePath itemName cyc =
     \<lparr>f_type = ''circular_reference'', f_file = Some filePath,
      f_path = Some (''/structure/'' @ itemName @ ''/lmay_file''),
      f_cycle = Some cyc, f_level = None\<rparr>"

text \<open>
  \<open>detectCircularReferencesRecursive\<close> and its loop over the entries of \<open>data.structure\<close>.
  An exception leaves the method with the state of that moment (\<open>Inl\<close>).
\<close>

function detectCircularReferencesRecursive ::
    "file_map \<Rightarrow> path \<Rightarrow> cyc_state \<Rightarrow> path list \<Rightarrow> js_error \<times> cyc_state + cyc_state"
  and detect_entries ::
    "file_map \<Rightarrow> path \<Rightarrow> path list \<Rightarrow> (string \<times> structure_entry) list \<Rightarrow> cyc_state
       \<Rightarrow> js_error \<times> cyc_state + cyc_state"
  where
  "detectCircularReferencesRecursive fm filePath st pathArray =
     (let st1 = st\<lparr>cs_visited := insert filePath (cs_visited st),
                   cs_stack := insert filePath (cs_stack st)\<rparr>
      in case (case map_of fm filePath of
                 None \<Rightarrow> None
               | Some data \<Rightarrow> if truthy_parsed data then structure_of data else None) of
           None \<Rightarrow> Inr (st1\<lparr>cs_stack := cs_stack st1 - {filePath}\<rparr>)
         | Some entries \<Rightarrow>
             (case detect_entries fm filePath pathArray entries st1 of
                Inl thrown \<Rightarrow> Inl thrown
              | Inr st2 \<Rightarrow> Inr (st2\<lparr>cs_stack := cs_stack st2 - {filePath}\<rparr>)))"
| "detect_entries fm filePath pathArray [] st = Inr st"
| "detect_entries fm filePath pathArray ((itemName, NullEntry) # rest) st =
     Inl (null_read_error, st)"
| "detect_entries fm filePath pathArray ((itemName, Entry itemInfo) # rest) st =
     (if truthy (lmay_file itemInfo) then
        (case shadowed_path_resolve pathArray filePath (lmay_file itemInfo) of
           Inl err \<Rightarrow> Inl (err, st)
         | Inr referencedPath \<Rightarrow>
             if referencedPath \<in> cs_stack st then
               detect_entries fm filePath pathArray rest
                 (st\<lparr>cs_errors := cs_errors st
                      @ [circular_reference filePath itemName
                           (pathArray @ [filePath, referencedPath])]\<rparr>)
             else if referencedPath \<notin> cs_visited st \<and> map_of fm referencedPath \<noteq> None then
               (case detectCircularReferencesRecursive fm referencedPath st
                       (pathArray @ [filePath]) of
                  Inl thrown \<Rightarrow> Inl thrown
                | Inr st' \<Rightarrow> detect_entries fm filePath pathArray rest st')
             else detect_entries fm filePath pathArray rest st)
      else detect_entries fm filePath pathArray rest st)"
  by pat_completeness auto
termination
  by (relation "measures
        [\<lambda>x. case x of Inl _ \<Rightarrow> 1 | Inr _ \<Rightarrow> 0,
         \<lambda>x. case x of Inl _ \<Rightarrow> 0 | Inr (fm, filePath, pathArray, entries, st) \<Rightarrow> length entries]")
     (auto simp: shadowed_path_resolve_def)

text \<open>\<open>this.errors\<close> when the method is left, by an exception or by its end.\<close>

fun thrown_or_final_errors :: "js_error \<times> cyc_state + cyc_state \<Rightarrow> finding list" where
  "thrown_or_final_errors (Inl (err, st)) = cs_errors st"
| "thrown_or_final_errors (Inr st) = cs_errors st"

text \<open>The loop of \<open>detectCircularReferences\<close> over \<open>this.fileMap.keys()\<close>.\<close>

fun detect_keys :: "file_map \<Rightarrow> path list \<Rightarrow> cyc_state \<Rightarrow> js_error \<times> cyc_state + cyc_state" where
  "detect_keys fm [] st = Inr st"
| "detect_keys fm (filePath # rest) st =
     (if filePath \<notin> cs_visited st then
        (case detectCircularReferencesRecursive fm filePath st [] of
           Inl thrown \<Rightarrow> Inl thrown
         | Inr st' \<Rightarrow> detect_keys fm rest st')
      else detect_keys fm rest st)"

text \<open>
  \<open>detectCircularReferences\<close>, from the validator's state: \<open>Inl\<close> when the method throws,
  with \<open>this.errors\<close> as it is then, otherwise \<open>this.errors\<close> at the end.
\<close>

definition detectCircularReferences :: "ref_state \<Rightarrow> js_error \<times> finding list + finding list" where
  "detectCircularReferences st =
     (case detect_keys (fileMap st) (map fst (fileMap st))
             \<lparr>cs_errors = rv_errors st, cs_visited = {}, cs_stack = {}\<rparr> of
        Inl (err, st') \<Rightarrow> Inl (err, cs_errors st')
      | Inr st' \<Rightarrow> Inr (cs_errors st'))"

subsection \<open>Orphan files\<close>

text \<open>
  A directory entry as \<open>readdirSync\<close> with \<open>withFileTypes\<close> gives it: a regular file, a
  directory with its own entries (\<open>None\<close> when reading it throws), or something else.
\<close>

datatype dirent = FileEntry string | DirEntry string "dirent list option" | OtherEntry string

definition shouldSkipDirectory :: "string \<Rightarrow> bool" where
  "shouldSkipDirectory name =
     (name \<in> set [''node_modules'', ''.git'', ''dist'', ''build'', ''.cache'']
      \<or> take 1 name = ''.'')"

definition endsWith :: "string \<Rightarrow> string \<Rightarrow> bool" where
  "endsWith s suffix = (length suffix \<le> length s \<and> drop (length s - length suffix) s = suffix)"

text \<open>
  \<open>findAllLMAYFiles(dirPath, files)\<close>, given the entries of \<open>dirPath\<close>; an unreadable
  directory leaves \<open>files\<close> as it is.
\<close>

fun findAllLMAYFiles :: "path_ops \<Rightarrow> path \<Rightarrow> dirent list option \<Rightarrow> path list \<Rightarrow> path list"
  and scan_entries :: "path_ops \<Rightarrow> path \<Rightarrow> dirent list \<Rightarrow> path list \<Rightarrow> path list"
  and scan_entry :: "path_ops \<Rightarrow> path \<Rightarrow> dirent \<Rightarrow> path list \<Rightarrow> path list"
  where
  "findAllLMAYFiles po dirPath None found = found"
| "findAllLMAYFiles po dirPath (Some entries) found = scan_entries po dirPath entries found"
| "scan_entries po dirPath [] found = found"
| "scan_entries po dirPath (entry # rest) found =
     scan_entries po dirPath rest (scan_entry po dirPath entry found)"
| "scan_entry po dirPath (DirEntry name sub) found =
     (if \<not> shouldSkipDirectory name then findAllLMAYFiles po (p_join po dirPath name) sub found
      else found)"
| "scan_entry po dirPath (FileEntry name) found =
     (if endsWith name ''.lmay'' then found @ [p_join po dirPath name] else found)"
| "scan_entry po dirPath (OtherEntry name) found = found"






text \<open>
  The specification's nested-document links: from a loaded document with a truthy
  \<open>structure\<close> to the resolved path of every entry that is a mapping with a non-empty
  string as \<open>lmay_file\<close>.
\<close>

definition entry_targets :: "path_ops \<Rightarrow> path \<Rightarrow> (string \<times> structure_entry) list \<Rightarrow> path list" where
  "entry_targets po filePath entries =
     concat (map (\<lambda>(itemName, entry).
        case entry of
          NullEntry \<Rightarrow> []
        | Entry itemInfo \<Rightarrow>
            (case lmay_file itemInfo of
               JStr f \<Rightarrow> if f \<noteq> [] then [p_resolve po (p_dirname po filePath) f] else []
             | _ \<Rightarrow> [])) entries)"

definition link_edges :: "path_ops \<Rightarrow> file_map \<Rightarrow> (path \<times> path) list" where
  "link_edges po fm =
     concat (map (\<lambda>(filePath, data).
        case (if truthy_parsed data then structure_of data else None) of
          None \<Rightarrow> []
        | Some entries \<Rightarrow> map (\<lambda>t. (filePath, t)) (entry_targets po filePath entries)) fm)"



text \<open>
  The specification's reachability: the documents reached from a document by following
  nested-document links.
\<close>

inductive reachable :: "path_ops \<Rightarrow> file_map \<Rightarrow> path \<Rightarrow> path \<Rightarrow> bool"
  for po :: path_ops and fm :: file_map and start :: path where
  reach_start: "reachable po fm start start"
| reach_link: "reachable po fm start a \<Longrightarrow> (a, b) \<in> set (link_edges po fm)
               \<Longrightarrow> reachable po fm start b"

section \<open>Drift analysis: analyzeObsolescence\<close>

text \<open>The double quote character.\<close>

definition dquote :: char where
  "dquote = CHR 0x22"

text \<open>
  One attempt of the regular expression \<open>key\s*"?([^"]+)"?\<close> at the start of \<open>text\<close>, where
  \<open>key\<close> is the literal \<open>path:\<close> or \<open>parent:\<close>: the matched text and the captured group.
  After the key the engine takes all white space, an opening quote if there is one, then
  the longest run of characters other than the quote (at least one), then a closing quote
  if there is one. When no such character follows, it backtracks: the last white space
  character, if any, becomes the run.
\<close>

definition match_at :: "string \<Rightarrow> string \<Rightarrow> (string \<times> string) option" where
  "match_at key text =
     (if take (length key) text = key then
        (let rest = drop (length key) text;
             ws = takeWhile js_space rest;
             r1 = dropWhile js_space rest
         in case r1 of
              [] \<Rightarrow> if ws = [] then None else Some (key @ ws, [last ws])
            | c # r2 \<Rightarrow>
                if c = dquote then
                  (let body = takeWhile (\<lambda>x. x \<noteq> dquote) r2 in
                   if body \<noteq> [] then
                     Some (key @ ws @ [c] @ body @ take 1 (dropWhile (\<lambda>x. x \<noteq> dquote) r2),
                           body)
                   else if ws \<noteq> [] then Some (key @ ws @ [c], [last ws])
                   else None)
                else
                  (let body = takeWhile (\<lambda>x. x \<noteq> dquote) r1 in
                   Some (key @ ws @ body @ take 1 (dropWhile (\<lambda>x. x \<noteq> dquote) r1), body)))
      else None)"

lemma match_at_length: "match_at ''path:'' text = Some (m, cap) \<Longrightarrow> 0 < length m"
  by (auto simp: match_at_def Let_def split: if_splits list.splits)

text \<open>\<open>line.match(/path:\s*"?([^"]+)"?/g)\<close>: all matches from left to right.\<close>

function path_matches :: "string \<Rightarrow> string list" where
  "path_matches [] = []"
| "path_matches (c # cs) =
     (case match_at ''path:'' (c # cs) of
        Some (m, cap) \<Rightarrow> m # path_matches (drop (length m) (c # cs))
      | None \<Rightarrow> path_matches cs)"
  by pat_completeness auto
termination
  by (relation "measure length") (auto dest!: match_at_length)

text \<open>\<open>line.match(/parent:\s*"?([^"]+)"?/)\<close>: the leftmost match.\<close>

fun first_match :: "string \<Rightarrow> string \<Rightarrow> (string \<times> string) option" where
  "first_match key [] = match_at key []"
| "first_match key (c # cs) =
     (case match_at key (c # cs) of
        Some r \<Rightarrow> Some r
      | None \<Rightarrow> first_match key cs)"

text \<open>
  \<open>match.replace(/path:\s*"?/, '')\<close> on a match, which starts with the key, and
  \<open>.replace(/"?$/, '')\<close>.
\<close>

definition strip_key :: "string \<Rightarrow> string \<Rightarrow> string" where
  "strip_key key m =
     (case dropWhile js_space (drop (length key) m) of
        [] \<Rightarrow> []
      | c # r2 \<Rightarrow> if c = dquote then r2 else c # r2)"

definition strip_trailing_quote :: "string \<Rightarrow> string" where
  "strip_trailing_quote s = (if s \<noteq> [] \<and> last s = dquote then butlast s else s)"

text \<open>\<open>content.split(sep)\<close> for a one-character separator.\<close>

fun split_on :: "char \<Rightarrow> string \<Rightarrow> string list" where
  "split_on sep [] = [[]]"
| "split_on sep (c # cs) =
     (if c = sep then [] # split_on sep cs
      else (case split_on sep cs of
              [] \<Rightarrow> [[c]]
            | l # ls \<Rightarrow> (c # l) # ls))"

text \<open>
  The references pushed for one line: the path values, then the parent reference (the
  test \<open>line.includes('parent:')\<close> holds whenever the expression matches).
\<close>

definition line_references :: "string \<Rightarrow> string list" where
  "line_references line =
     map (\<lambda>m. strip_trailing_quote (strip_key ''path:'' m)) (path_matches line)
     @ (case first_match ''parent:'' line of
          None \<Rightarrow> []
        | Some (m, cap) \<Rightarrow> [cap])"

definition extractFileReferences :: "string \<Rightarrow> string list" where
  "extractFileReferences content = concat (map line_references (split_on CHR 0x0A content))"

text \<open>An element of \<open>lmayFiles\<close>: its path and its modification time in milliseconds.\<close>

record lmay_entry =
  le_path :: path
  le_modified :: int

record obsolete_entry =
  ob_file :: lmay_entry
  ob_reason :: string
  ob_age :: int

record outdated_entry =
  od_file :: lmay_entry
  od_age :: int

record analysis =
  an_obsolete :: "obsolete_entry list"
  an_outdated :: "outdated_entry list"
  an_valid :: "lmay_entry list"

definition day_ms :: int where
  "day_ms = 24 * 60 * 60 * 1000"

text \<open>
  \<open>age > thresholdMs\<close>, where \<open>thresholdMs\<close> is \<open>None\<close> when \<open>parseInt\<close> gave \<open>NaN\<close>.
\<close>

definition exceeds :: "int \<Rightarrow> int option \<Rightarrow> bool" where
  "exceeds age thresholdMs = (case thresholdMs of None \<Rightarrow> False | Some t \<Rightarrow> age > t)"

text \<open>\<open>Math.round(age / (24 * 60 * 60 * 1000))\<close>: halves are rounded up.\<close>

definition round_days :: "int \<Rightarrow> int" where
  "round_days age = (2 * age + day_ms) div (2 * day_ms)"

text \<open>
  The loop of \<open>analyzeObsolescence\<close> over \<open>lmayFiles\<close>. \<open>fs.readFile\<close> rejects for a file
  that is missing or unreadable, and so does the method; \<open>pathExists\<close> is
  \<open>fs.pathExists\<close>.
\<close>

fun analyze_files ::
    "env \<Rightarrow> (path \<Rightarrow> bool) \<Rightarrow> path_ops \<Rightarrow> int option \<Rightarrow> int \<Rightarrow> lmay_entry list \<Rightarrow> analysis
       \<Rightarrow> js_error + analysis" where
  "analyze_files e pathExists po thresholdMs now [] a = Inr a"
| "analyze_files e pathExists po thresholdMs now (file # rest) a =
     (let age = now - le_modified file in
      if exceeds age thresholdMs then
        (case map_of (files e) (le_path file) of
           Some (Readable content) \<Rightarrow>
             (let references = extractFileReferences content;
                  hasValidReferences =
                    list_ex (\<lambda>ref. pathExists (p_resolve po (p_dirname po (le_path file)) ref))
                      references
              in if \<not> hasValidReferences \<and> length references > 0 then
                   analyze_files e pathExists po thresholdMs now rest
                     (a\<lparr>an_obsolete := an_obsolete a
                          @ [\<lparr>ob_file = file, ob_reason = ''References non-existent files'',
                               ob_age = round_days age\<rparr>]\<rparr>)
                 else
                   analyze_files e pathExists po thresholdMs now rest
                     (a\<lparr>an_outdated := an_outdated a
                          @ [\<lparr>od_file = file, od_age = round_days age\<rparr>]\<rparr>))
         | _ \<Rightarrow> Inl (ReadError (le_path file)))
      else
        analyze_files e pathExists po thresholdMs now rest (a\<lparr>an_valid := an_valid a @ [file]\<rparr>))"

text \<open>
  \<open>analyzeObsolescence\<close>; \<open>threshold\<close> is \<open>parseInt(options.threshold)\<close>, \<open>now\<close> is
  \<open>Date.now()\<close>.
\<close>

definition analyzeObsolescence ::
    "env \<Rightarrow> (path \<Rightarrow> bool) \<Rightarrow> path_ops \<Rightarrow> int option \<Rightarrow> int \<Rightarrow> lmay_entry list
       \<Rightarrow> js_error + analysis" where
  "analyzeObsolescence e pathExists po threshold now lmayFiles =
     analyze_files e pathExists po (map_option (\<lambda>d. d * day_ms) threshold) now lmayFiles
       \<lparr>an_obsolete = [], an_outdated = [], an_valid = []\<rparr>"

text \<open>The condition \<open>!hasValidReferences && references.length > 0\<close> of the loop.\<close>

definition obsolete_condition :: "env \<Rightarrow> (path \<Rightarrow> bool) \<Rightarrow> path_ops \<Rightarrow> lmay_entry \<Rightarrow> string \<Rightarrow> bool" where
  "obsolete_condition e pathExists po file content =
     (\<not> list_ex (\<lambda>ref. pathExists (p_resolve po (p_dirname po (le_path file)) ref))
          (extractFileReferences content)
      \<and> length (extractFileReferences content) > 0)"

text \<open>
  The specification's condition for \<open>obsolete\<close>: the document has at least one extracted
  reference and none of them resolves.
\<close>

definition unresolved_references :: "env \<Rightarrow> (path \<Rightarrow> bool) \<Rightarrow> path_ops \<Rightarrow> lmay_entry \<Rightarrow> bool" where
  "unresolved_references e pathExists po file =
     (case map_of (files e) (le_path file) of
        Some (Readable content) \<Rightarrow>
          extractFileReferences content \<noteq> []
          \<and> list_all (\<lambda>ref. \<not> pathExists (p_resolve po (p_dirname po (le_path file)) ref))
                (extractFileReferences content)
      | _ \<Rightarrow> False)"

section \<open>SchemaValidator.validateStructureItem\<close>

text \<open>
  The errors and the warnings that \<open>validateStructureItem\<close> pushes for one entry of
  \<open>structure\<close>; \<open>isAbsolute\<close> is \<open>path.isAbsolute\<close>.
\<close>

definition validateStructureItem ::
    "(string \<Rightarrow> bool) \<Rightarrow> string \<Rightarrow> item_info \<Rightarrow> path \<Rightarrow> finding list \<times> finding list" where
  "validateStructureItem isAbsolute name info filePath =
     (let basePath = ''/structure/'' @ name in
      ((if item_type info = Some ''file'' \<and> truthy (file_count info)
           \<and> file_count info \<noteq> JNum 1
        then [mk_finding ''invalid_file_count'' (Some filePath) (Some (basePath @ ''/file_count''))]
        else []),
       (if truthy_str (item_path info) \<and> isAbsolute (the (item_path info))
        then [mk_finding ''absolute_path_in_structure'' (Some filePath) (Some (basePath @ ''/path''))]
        else [])
       @ (if truthy_str (primary_language info) \<and> item_type info = Some ''file''
          then [mk_finding ''language_on_file'' (Some filePath)
                  (Some (basePath @ ''/primary_language''))]
          else [])))"

text \<open>\<open>path.isAbsolute\<close> on POSIX: the path starts with a slash.\<close>

definition posix_isAbsolute :: "string \<Rightarrow> bool" where
  "posix_isAbsolute p = (take 1 p = ''/'')"

section \<open>Auxiliary notions\<close>

text \<open>
  The path of the document that the recursive call of \<open>buildHierarchyTree\<close> builds for the
  link \<open>f\<close> of the document \<open>rootPath\<close>: \<open>childPath\<close> made relative to the project and
  joined to it again.
\<close>

definition childRootPath :: "path_ops \<Rightarrow> path \<Rightarrow> path \<Rightarrow> string \<Rightarrow> path" where
  "childRootPath po projectPath rootPath f =
     p_join po projectPath
       (p_relative po projectPath (p_resolve po (p_dirname po rootPath) f))"

text \<open>
  The specification's canonical path, for a normalised path (no \<open>.\<close> or \<open>..\<close> segment, no
  doubled slash): an absolute path as it is, a relative path below the working directory.
  This is what \<open>path.resolve\<close> gives for such a path.
\<close>

definition canonical :: "path \<Rightarrow> path \<Rightarrow> path" where
  "canonical workingDir p = (if take 1 p = ''/'' then p else workingDir @ ''/'' @ p)"

text \<open>The nodes of a tree in the order of the traversals, each with its stored \<open>depth\<close>.\<close>

fun depth_table :: "hnode \<Rightarrow> (path \<times> nat) list" where
  "depth_table (HNode file data children depth parent parentKey) =
     (file, depth) # concat (map depth_table children)"

text \<open>
  The specification's depth: the number of nested-document links from the root, the root
  being at \<open>k\<close>.
\<close>

fun link_hops :: "nat \<Rightarrow> hnode \<Rightarrow> (path \<times> nat) list" where
  "link_hops k (HNode file data children depth parent parentKey) =
     (file, k) # concat (map (link_hops (Suc k)) children)"

text \<open>All nodes strictly below a node.\<close>

fun below :: "hnode \<Rightarrow> hnode list" where
  "below (HNode file data children depth parent parentKey) =
     concat (map (\<lambda>c. c # below c) children)"

definition hierarchy_error_type :: "finding \<Rightarrow> bool" where
  "hierarchy_error_type f =
     (f_type f = ''incorrect_hierarchy_depth'' \<or> f_type f = ''incorrect_parent_reference'')"

section \<open>Example projects\<close>

text \<open>
  A project whose documents all lie directly in the directory \<open>/p\<close> and link to each other
  by plain file names. On such paths Node's \<open>path.join\<close> and \<open>path.resolve\<close> put a slash
  between directory and name, \<open>path.dirname\<close> of a document is \<open>/p\<close>, and \<open>path.relative\<close>
  from \<open>/p\<close> strips the directory.
\<close>

definition flat_ops :: path_ops where
  "flat_ops =
     \<lparr>p_join = (\<lambda>d f. d @ ''/'' @ f), p_resolve = (\<lambda>d f. d @ ''/'' @ f),
      p_dirname = (\<lambda>f. ''/p''), p_relative = (\<lambda>d t. drop (length d + 1) t)\<rparr>"

definition link :: "string \<Rightarrow> structure_entry" where
  "link f =
     Entry \<lparr>item_path = None, item_type = None, lmay_file = JStr f, file_count = JUndefined,
            primary_language = None\<rparr>"

definition doc :: "(string \<times> structure_entry) list \<Rightarrow> parsed" where
  "doc entries = Doc \<lparr>doc_structure = Some entries, doc_hierarchy = None\<rparr>"

text \<open>A parser given by a table from file content to parsed document.\<close>

definition table_yaml ::
    "(string \<times> parsed) list \<Rightarrow> string \<Rightarrow> path \<Rightarrow> finding list \<times> (unit + parsed)" where
  "table_yaml t content filePath =
     ([], case map_of t content of None \<Rightarrow> Inl () | Some d \<Rightarrow> Inr d)"

text \<open>\<open>root.lmay\<close> links to \<open>a.lmay\<close>, which links to \<open>b.lmay\<close>, which links back to \<open>root.lmay\<close>.\<close>

definition cycle_env :: env where
  "cycle_env =
     \<lparr>files = [(''/p/root.lmay'', Readable ''structure: {a: {lmay_file: a.lmay}}''),
               (''/p/a.lmay'', Readable ''structure: {b: {lmay_file: b.lmay}}''),
               (''/p/b.lmay'', Readable ''structure: {r: {lmay_file: root.lmay}}'')],
      yaml_load = table_yaml
        [(''structure: {a: {lmay_file: a.lmay}}'', doc [(''a'', link ''a.lmay'')]),
         (''structure: {b: {lmay_file: b.lmay}}'', doc [(''b'', link ''b.lmay'')]),
         (''structure: {r: {lmay_file: root.lmay}}'', doc [(''r'', link ''root.lmay'')])],
      additional_warnings = (\<lambda>content filePath. [])\<rparr>"

text \<open>
  \<open>root.lmay\<close> links to \<open>a.lmay\<close>, which links to \<open>b.lmay\<close>; \<open>b.lmay\<close> has no links and
  declares \<open>hierarchy.depth: 2\<close>.
\<close>

definition chain_env :: env where
  "chain_env =
     \<lparr>files = [(''/p/root.lmay'', Readable ''structure: {a: {lmay_file: a.lmay}}''),
               (''/p/a.lmay'', Readable ''structure: {b: {lmay_file: b.lmay}}''),
               (''/p/b.lmay'', Readable ''hierarchy: {depth: 2}'')],
      yaml_load = table_yaml
        [(''structure: {a: {lmay_file: a.lmay}}'', doc [(''a'', link ''a.lmay'')]),
         (''structure: {b: {lmay_file: b.lmay}}'', doc [(''b'', link ''b.lmay'')]),
         (''hierarchy: {depth: 2}'',
            Doc \<lparr>doc_structure = None,
                 doc_hierarchy = Some \<lparr>h_depth = JNum 2, h_parent = None\<rparr>\<rparr>)],
      additional_warnings = (\<lambda>content filePath. [])\<rparr>"

text \<open>
  \<open>root.lmay\<close> links to \<open>a.lmay\<close>, which links to the four leaves \<open>b1.lmay\<close> ... \<open>b4.lmay\<close>.
\<close>

definition fan_env :: env where
  "fan_env =
     \<lparr>files = [(''/p/root.lmay'', Readable ''structure: {a: {lmay_file: a.lmay}}''),
               (''/p/a.lmay'',
                  Readable ''structure: {b1: {lmay_file: b1.lmay}, b2: {lmay_file: b2.lmay}, b3: {lmay_file: b3.lmay}, b4: {lmay_file: b4.lmay}}''),
               (''/p/b1.lmay'', Readable ''lmay_version: 1.0''),
               (''/p/b2.lmay'', Readable ''lmay_version: 1.0''),
               (''/p/b3.lmay'', Readable ''lmay_version: 1.0''),
               (''/p/b4.lmay'', Readable ''lmay_version: 1.0'')],
      yaml_load = table_yaml
        [(''structure: {a: {lmay_file: a.lmay}}'', doc [(''a'', link ''a.lmay'')]),
         (''structure: {b1: {lmay_file: b1.lmay}, b2: {lmay_file: b2.lmay}, b3: {lmay_file: b3.lmay}, b4: {lmay_file: b4.lmay}}'',
            doc [(''b1'', link ''b1.lmay''), (''b2'', link ''b2.lmay''),
                 (''b3'', link ''b3.lmay''), (''b4'', link ''b4.lmay'')]),
         (''lmay_version: 1.0'', Doc \<lparr>doc_structure = None, doc_hierarchy = None\<rparr>)],
      additional_warnings = (\<lambda>content filePath. [])\<rparr>"

text \<open>A file holding the text \<open>null\<close>.\<close>

definition null_env :: env where
  "null_env =
     \<lparr>files = [(''/p/root.lmay'', Readable ''null'')],
      yaml_load = table_yaml [(''null'', Scalar JNull)],
      additional_warnings = (\<lambda>content filePath. [])\<rparr>"

text \<open>A schema validator and a reference validator that return a report without findings.\<close>

definition no_schema_errors :: "parsed \<Rightarrow> path \<Rightarrow> report outcome" where
  "no_schema_errors parsedContent filePath = Returns (generateReport [] [])"

definition no_reference_errors :: "path \<Rightarrow> string \<Rightarrow> report outcome" where
  "no_reference_errors projectPath rootFile = Returns (generateReport [] [])"

text \<open>A document without links.\<close>

definition no_links :: parsed where
  "no_links = Doc \<lparr>doc_structure = None, doc_hierarchy = None\<rparr>"

text \<open>The cache after loading a \<open>root.lmay\<close> whose entry \<open>self\<close> links to \<open>root.lmay\<close>.\<close>

definition self_ref_state :: ref_state where
  "self_ref_state =
     \<lparr>rv_errors = [], rv_warnings = [],
      fileMap = [(''/p/root.lmay'', doc [(''self'', link ''root.lmay'')])]\<rparr>"



text \<open>A fresh validator state, and a file system without files.\<close>

definition empty_state :: ref_state where
  "empty_state = \<lparr>rv_errors = [], rv_warnings = [], fileMap = []\<rparr>"

definition no_files_env :: env where
  "no_files_env = \<lparr>files = [], yaml_load = table_yaml [], additional_warnings = (\<lambda>c f. [])\<rparr>"

text \<open>
  A document \<open>old.lmay\<close> with the single line \<open>path: src\<close>, last modified at time 0.
\<close>

definition old_env :: env where
  "old_env =
     \<lparr>files = [(''/p/old.lmay'', Readable ''path: src'')],
      yaml_load = table_yaml [],
      additional_warnings = (\<lambda>content filePath. [])\<rparr>"

definition old_file :: lmay_entry where
  "old_file = \<lparr>le_path = ''/p/old.lmay'', le_modified = 0\<rparr>"

text \<open>A structure entry for a file that declares \<open>file_count: 0\<close>.\<close>

definition zero_count_item :: item_info where
  "zero_count_item =
     \<lparr>item_path = Some ''README.md'', item_type = Some ''file'', lmay_file = JUndefined,
      file_count = JNum 0, primary_language = None\<rparr>"

text \<open>
  The project \<open>proj\<close> in the working directory \<open>/w\<close>, given as a relative path. Its document
  \<open>a.lmay\<close> is reached as \<open>/w/proj/a.lmay\<close> through \<open>path.resolve\<close> (from a link) and as
  \<open>proj/a.lmay\<close> through \<open>path.join\<close> (from the scan of the directory). \<open>before_env\<close> and
  \<open>after_env\<close> are the file system before and after the document has been rewritten.
\<close>

definition empty_structure :: parsed where
  "empty_structure = Doc \<lparr>doc_structure = Some [], doc_hierarchy = None\<rparr>"

definition before_env :: env where
  "before_env =
     \<lparr>files = [(''/w/proj/a.lmay'', Readable ''structure: {}''),
               (''proj/a.lmay'', Readable ''structure: {}'')],
      yaml_load = table_yaml [(''structure: {}'', empty_structure)],
      additional_warnings = (\<lambda>content filePath. [])\<rparr>"

definition after_env :: env where
  "after_env =
     \<lparr>files = [(''/w/proj/a.lmay'', Readable ''lmay_version: 1.0''),
               (''proj/a.lmay'', Readable ''lmay_version: 1.0'')],
      yaml_load = table_yaml [(''lmay_version: 1.0'', no_links)],
      additional_warnings = (\<lambda>content filePath. [])\<rparr>"

text \<open>
  \<open>root.lmay\<close> links to \<open>a.lmay\<close> and to \<open>b.lmay\<close>, and each of them links to \<open>c.lmay\<close>.
\<close>

definition diamond_env :: env where
  "diamond_env =
     \<lparr>files = [(''/p/root.lmay'',
                  Readable ''structure: {a: {lmay_file: a.lmay}, b: {lmay_file: b.lmay}}''),
               (''/p/a.lmay'', Readable ''structure: {c: {lmay_file: c.lmay}}''),
               (''/p/b.lmay'', Readable ''structure: {c: {lmay_file: c.lmay}}''),
               (''/p/c.lmay'', Readable ''lmay_version: 1.0'')],
      yaml_load = table_yaml
        [(''structure: {a: {lmay_file: a.lmay}, b: {lmay_file: b.lmay}}'',
            doc [(''a'', link ''a.lmay''), (''b'', link ''b.lmay'')]),
         (''structure: {c: {lmay_file: c.lmay}}'', doc [(''c'', link ''c.lmay'')]),
         (''lmay_version: 1.0'', no_links)],
      additional_warnings = (\<lambda>content filePath. [])\<rparr>"

text \<open>
  A \<open>root.lmay\<close> whose \<open>structure\<close> has the entry \<open>src\<close> without a value (\<open>null\<close>), and its
  cache.
\<close>

definition null_entry_env :: env where
  "null_entry_env =
     \<lparr>files = [(''/p/root.lmay'', Readable ''structure: {src: }'')],
      yaml_load = table_yaml [(''structure: {src: }'', doc [(''src'', NullEntry)])],
      additional_warnings = (\<lambda>content filePath. [])\<rparr>"


text \<open>
  The command line in the working directory \<open>/p\<close>, where the directory \<open>/reports\<close> does not
  exist, so that nothing below it can be written.
\<close>

definition p_cli :: cli_env where
  "p_cli =
     \<lparr>cwd = ''/p'',
      resolve_cwd = (\<lambda>f. if take 1 f = ''/'' then f else ''/p/'' @ f),
      writable = (\<lambda>out. take 9 out \<noteq> ''/reports/''),
      schema_loads = True\<rparr>"

definition plain_options :: cli_options where
  "plain_options =
     \<lparr>o_project = None, o_strict = False, o_references = True, o_hierarchy = True,
      o_output = None\<rparr>"

text \<open>
  The validator's state after the load of \<open>/w/proj/a.lmay\<close> before the rewrite, and after the
  load of \<open>proj/a.lmay\<close> that follows the rewrite.
\<close>

definition loaded_once :: ref_state where
  "loaded_once = \<lparr>rv_errors = [], rv_warnings = [],
                  fileMap = [(''/w/proj/a.lmay'', empty_structure)]\<rparr>"

definition loaded_twice :: ref_state where
  "loaded_twice = \<lparr>rv_errors = [], rv_warnings = [],
                   fileMap = [(''/w/proj/a.lmay'', empty_structure), (''proj/a.lmay'', no_links)]\<rparr>"

text \<open>
  The mapping of a structure entry that only links to the document \<open>f\<close>, and the node
  that the build of the diamond project puts below the root for the branch \<open>f\<close>, with its
  own node for \<open>c.lmay\<close>.
\<close>

definition link_info :: "string \<Rightarrow> item_info" where
  "link_info f =
     \<lparr>item_path = None, item_type = None, lmay_file = JStr f, file_count = JUndefined,
      primary_language = None\<rparr>"

definition diamond_branch :: "string \<Rightarrow> string \<Rightarrow> hnode" where
  "diamond_branch name f =
     HNode (''/p/'' @ f) (doc [(''c'', link ''c.lmay'')])
       [HNode ''/p/c.lmay'' no_links [] 1 (Some (''/p/'' @ f)) (Some ''c'')]
       1 (Some ''/p/root.lmay'') (Some name)"

text \<open>
  The options of \<open>lmay-validate --output /reports/out.txt\<close> and of
  \<open>lmay-validate --project /p --no-references\<close>.
\<close>

definition report_options :: cli_options where
  "report_options = plain_options\<lparr>o_output := Some ''/reports/out.txt''\<rparr>"

definition project_options :: cli_options where
  "project_options = plain_options\<lparr>o_project := Some ''/p'', o_references := False\<rparr>"

section \<open>Theorems\<close>

subsection \<open>Falsy parse results\<close>

text \<open>
  C10. A file that exists, is not blank after trimming, and parses to a falsy scalar
  (\<open>undefined\<close>, \<open>null\<close>, \<open>false\<close>, \<open>0\<close> or the empty string) is validated with no error:
  the result is valid, its error list is empty, and the summary has a \<open>yaml\<close> entry without
  errors but no \<open>schema\<close> entry, whatever the schema validator would have reported.
\<close>

theorem validateFile_falsy_parse:
  assumes "map_of (files e) filePath = Some (Readable content)"
    and "\<not> trim_empty content"
    and "yaml_load e content filePath = (ws, Inr (Scalar v))"
    and "\<not> truthy v"
  shows "\<exists>res. validateFile e schema_report filePath = Returns res
       \<and> valid res
       \<and> errors res = []
       \<and> summary res ''schema'' = None
       \<and> summary res ''yaml''
           = Some \<lparr>s_errorCount = 0,
                   s_warningCount = length (ws @ additional_warnings e content filePath),
                   s_valid = Some True\<rparr>"
  using assms
  by (simp add: validateFile_def yaml_validateFile_def mergeResults_def finalizeResults_def
      resetResults_def generateReport_def Let_def)

text \<open>
  The file \<open>/p/root.lmay\<close> holding the text \<open>null\<close> is such a file.
\<close>

theorem validateFile_falsy_parse_witness:
  "map_of (files null_env) ''/p/root.lmay'' = Some (Readable ''null'')
   \<and> \<not> trim_empty ''null''
   \<and> yaml_load null_env ''null'' ''/p/root.lmay'' = ([], Inr (Scalar JNull))
   \<and> \<not> truthy JNull
   \<and> map_outcome valid (validateFile null_env no_schema_errors ''/p/root.lmay'') = Returns True
   \<and> map_outcome errors (validateFile null_env no_schema_errors ''/p/root.lmay'') = Returns []
   \<and> map_outcome (\<lambda>res. summary res ''schema'')
         (validateFile null_env no_schema_errors ''/p/root.lmay'') = Returns None"
proof -
  have h1: "map_of (files null_env) ''/p/root.lmay'' = Some (Readable ''null'')"
    by (simp add: null_env_def)
  have h2: "\<not> trim_empty ''null''"
    by (simp add: trim_empty_def js_space_def)
  have h3: "yaml_load null_env ''null'' ''/p/root.lmay'' = ([], Inr (Scalar JNull))"
    by (simp add: null_env_def table_yaml_def)
  have h4: "\<not> truthy JNull"
    by simp
  from validateFile_falsy_parse [OF h1 h2 h3 h4, of no_schema_errors]
  obtain res where "validateFile null_env no_schema_errors ''/p/root.lmay'' = Returns res"
    "valid res" "errors res = []" "summary res ''schema'' = None"
    by blast
  then show ?thesis
    using h1 h2 h3 h4 by simp
qed

subsection \<open>The loader's cache\<close>

lemma load_cached: "map_of (fileMap st) p = Some d \<Longrightarrow> loadLMAYFile e p st = (d, st)"
  by (simp add: loadLMAYFile_def)

lemma load_keeps_entry:
  "map_of (fileMap st) p = Some d \<Longrightarrow> map_of (fileMap (snd (loadLMAYFile e q st))) p = Some d"
  by (auto simp: loadLMAYFile_def split: option.splits sum.splits fs_entry.splits)

lemma loads_keeps_entry:
  "map_of (fileMap st) p = Some d \<Longrightarrow> map_of (fileMap (loads later st)) p = Some d"
proof (induction later arbitrary: st)
  case Nil
  then show ?case by simp
next
  case (Cons a later)
  obtain e q where a: "a = (e, q)" by (cases a)
  from Cons.prems have "map_of (fileMap (snd (loadLMAYFile e q st))) p = Some d"
    by (rule load_keeps_entry)
  then show ?case using Cons.IH a by simp
qed

lemma load_success_cached:
  assumes "loadLMAYFile e p st = (d, st')" and "rv_errors st' = rv_errors st"
  shows "map_of (fileMap st') p = Some d"
  using assms
  by (auto simp: loadLMAYFile_def map_add_def split: option.splits sum.splits fs_entry.splits)

text \<open>
  C8, as the code has it. Once \<open>loadLMAYFile\<close> has loaded a path without pushing an error,
  every later call with the same path string, after any number of other loads, returns
  the same parsed document and leaves the state as it is, whatever the file system holds
  by then: the file is neither read nor parsed again. The key of the cache is the
  argument as it is passed.
\<close>

theorem loader_memoization:
  assumes "loadLMAYFile e p st = (d, st')" and "rv_errors st' = rv_errors st"
  shows "loadLMAYFile e' p (loads later st') = (d, loads later st')"
  using load_cached loads_keeps_entry load_success_cached [OF assms] by blast

text \<open>
  \<open>/w/proj/a.lmay\<close> is loaded while it holds an empty \<open>structure\<close>; after the file has been
  rewritten and another path has been asked for, a load of \<open>/w/proj/a.lmay\<close> still returns
  the document with the empty \<open>structure\<close>, and the cache is as it was.
\<close>

theorem loader_memoization_witness:
  "loadLMAYFile before_env ''/w/proj/a.lmay'' empty_state = (empty_structure, loaded_once)
   \<and> rv_errors loaded_once = rv_errors empty_state
   \<and> loadLMAYFile after_env ''/w/proj/a.lmay'' (loads [(after_env, ''/w/proj/b.lmay'')] loaded_once)
       = (empty_structure, loads [(after_env, ''/w/proj/b.lmay'')] loaded_once)
   \<and> fileMap (loads [(after_env, ''/w/proj/b.lmay'')] loaded_once)
       = [(''/w/proj/a.lmay'', empty_structure)]"
proof -
  have h1: "loadLMAYFile before_env ''/w/proj/a.lmay'' empty_state = (empty_structure, loaded_once)"
    by (simp add: loadLMAYFile_def before_env_def empty_state_def table_yaml_def loaded_once_def)
  have h2: "rv_errors loaded_once = rv_errors empty_state"
    by (simp add: loaded_once_def empty_state_def)
  have f: "fileMap (loads [(after_env, ''/w/proj/b.lmay'')] loaded_once)
       = [(''/w/proj/a.lmay'', empty_structure)]"
    by (simp add: loadLMAYFile_def after_env_def loaded_once_def)
  show ?thesis
    using h1 h2 f
      loader_memoization [OF h1 h2, of after_env "[(after_env, ''/w/proj/b.lmay'')]"]
    by simp
qed

text \<open>
  C8 as stated fails for a project given by a relative path: \<open>proj/a.lmay\<close> and
  \<open>/w/proj/a.lmay\<close> have the same canonical path in the working directory \<open>/w\<close>, and
  after a successful load through the one, a load through the other reads and parses the
  file again; it returns the rewritten document and adds a second entry to the cache.
\<close>

theorem loader_two_keys_one_file:
  "canonical ''/w'' ''proj/a.lmay'' = canonical ''/w'' ''/w/proj/a.lmay''
   \<and> loadLMAYFile before_env ''/w/proj/a.lmay'' empty_state = (empty_structure, loaded_once)
   \<and> loadLMAYFile after_env ''proj/a.lmay'' loaded_once = (no_links, loaded_twice)
   \<and> no_links \<noteq> empty_structure"
  by (simp add: canonical_def loadLMAYFile_def before_env_def after_env_def empty_state_def
      table_yaml_def loaded_once_def loaded_twice_def no_links_def empty_structure_def)

subsection \<open>Circular references\<close>

text \<open>
  C1 fails on the smallest cycle, a \<open>root.lmay\<close> that links to itself:
  \<open>detectCircularReferences\<close> throws a \<open>TypeError\<close> and has pushed no finding.
\<close>

theorem detectCircularReferences_self_reference:
  "detectCircularReferences self_ref_state
     = Inl (TypeError ''path.dirname is not a function'', [])"
  by code_simp

text \<open>
  Whatever the cache holds, \<open>detectCircularReferences\<close> pushes no finding: it ends or throws
  with \<open>this.errors\<close> unchanged.
\<close>

lemma detect_errors_unchanged:
  "thrown_or_final_errors (detectCircularReferencesRecursive fm filePath st pathArray) = cs_errors st"
  "thrown_or_final_errors (detect_entries fm filePath pathArray entries st) = cs_errors st"
proof (induction fm filePath st pathArray and fm filePath pathArray entries st
    rule: detectCircularReferencesRecursive_detect_entries.induct)
  case (1 fm filePath st pathArray)
  define st1 where "st1 = st\<lparr>cs_visited := insert filePath (cs_visited st),
      cs_stack := insert filePath (cs_stack st)\<rparr>"
  define found where "found =
      (case map_of fm filePath of
         None \<Rightarrow> None
       | Some data \<Rightarrow> if truthy_parsed data then structure_of data else None)"
  have unfolded: "detectCircularReferencesRecursive fm filePath st pathArray =
      (case found of
         None \<Rightarrow> Inr (st1\<lparr>cs_stack := cs_stack st1 - {filePath}\<rparr>)
       | Some entries \<Rightarrow>
           (case detect_entries fm filePath pathArray entries st1 of
              Inl thrown \<Rightarrow> Inl thrown
            | Inr st2 \<Rightarrow> Inr (st2\<lparr>cs_stack := cs_stack st2 - {filePath}\<rparr>)))"
    by (simp only: detectCircularReferencesRecursive.simps Let_def st1_def found_def)
  show ?case
  proof (cases found)
    case None
    then show ?thesis
      by (simp add: unfolded st1_def del: detectCircularReferencesRecursive.simps)
  next
    case (Some entries)
    from 1 [OF st1_def Some [unfolded found_def]]
    have ih: "thrown_or_final_errors (detect_entries fm filePath pathArray entries st1)
        = cs_errors st1" .
    show ?thesis
    proof (cases "detect_entries fm filePath pathArray entries st1")
      case (Inl thrown)
      with ih Some show ?thesis
        by (cases thrown)
           (simp add: unfolded st1_def del: detectCircularReferencesRecursive.simps)
    next
      case (Inr st2)
      with ih Some show ?thesis
        by (simp add: unfolded st1_def del: detectCircularReferencesRecursive.simps)
    qed
  qed
next
  case (2 fm filePath pathArray st)
  then show ?case by simp
next
  case (3 fm filePath pathArray itemName rest st)
  then show ?case by simp
next
  case (4 fm filePath pathArray itemName itemInfo rest st)
  then show ?case
    by (simp add: shadowed_path_resolve_def)
qed

lemma detect_keys_errors_unchanged:
  "thrown_or_final_errors (detect_keys fm ks st) = cs_errors st"
proof (induction ks arbitrary: st)
  case Nil
  then show ?case by simp
next
  case (Cons k ks)
  show ?case
  proof (cases "detectCircularReferencesRecursive fm k st []")
    case (Inl a)
    with detect_errors_unchanged(1)[of fm k st "[]"] Cons show ?thesis by simp
  next
    case (Inr st')
    with detect_errors_unchanged(1)[of fm k st "[]"] Cons show ?thesis by simp
  qed
qed

lemma detectCircularReferences_reports_nothing:
  "detectCircularReferences st = Inl (err, es) \<or> detectCircularReferences st = Inr es
     \<Longrightarrow> es = rv_errors st"
  using detect_keys_errors_unchanged [of "fileMap st" "map fst (fileMap st)"
      "\<lparr>cs_errors = rv_errors st, cs_visited = {}, cs_stack = {}\<rparr>"]
  by (auto simp: detectCircularReferences_def split: sum.splits prod.splits)

subsection \<open>Orphan files\<close>














subsection \<open>The hierarchy tree\<close>

lemma fold_preserves:
  assumes "\<And>x a. x \<in> set xs \<Longrightarrow> P a \<Longrightarrow> P (f x a)" and "P a"
  shows "P (fold f xs a)"
  using assms by (induction xs arbitrary: a) auto

lemma metadata_error_types:
  "f \<in> set (validateHierarchyMetadata po node hier) \<Longrightarrow> hierarchy_error_type f"
  by (auto simp: validateHierarchyMetadata_def hierarchy_error_type_def mk_finding_def
      split: option.splits if_splits)

lemma consistency_error_types:
  "list_all hierarchy_error_type (fst acc) \<Longrightarrow>
   list_all hierarchy_error_type (fst (validateHierarchyConsistency po maxDepth t acc))"
proof (induction po maxDepth t acc rule: validateHierarchyConsistency.induct)
  case (1 po maxDepth f d cs dp par pk errs warns)
  define node where "node = HNode f d cs dp par pk"
  define warns1 where "warns1 =
      (if n_depth node > maxDepth
       then warns @ [mk_finding ''excessive_hierarchy_depth'' (Some (n_file node)) None]
       else warns)"
  define errs1 where "errs1 =
      (case hierarchy_of (n_data node) of
         None \<Rightarrow> errs
       | Some hier \<Rightarrow> errs @ validateHierarchyMetadata po node hier)"
  have start: "list_all hierarchy_error_type (fst (errs1, warns1))"
    using 1(2) by (auto simp: errs1_def list_all_iff dest: metadata_error_types split: option.splits)
  have step: "list_all hierarchy_error_type (fst (validateHierarchyConsistency po maxDepth x a))"
    if "x \<in> set cs" "list_all hierarchy_error_type (fst a)" for x a
    using 1(1)[OF node_def warns1_def errs1_def that(1), of a] that(2) by simp
  have "list_all hierarchy_error_type
          (fst (fold (validateHierarchyConsistency po maxDepth) cs (errs1, warns1)))"
    by (rule fold_preserves[where P = "\<lambda>a. list_all hierarchy_error_type (fst a)"])
       (use step start in auto)
  then show ?case
    unfolding node_def warns1_def errs1_def
    by (simp add: Let_def split: if_splits)
qed

text \<open>
  Every node that \<open>buildHierarchyTree\<close> puts below the root has the stored depth 1: a
  child's \<open>depth\<close> is assigned from \<open>node.depth\<close> while that is still the initial 0, and the
  depths of the child's own descendants were assigned before.
\<close>

lemma below_relabel:
  "below (HNode f d (n_children c) dp par pk) = below c"
  by (cases c) simp

lemma built_depths:
  "(\<forall>t. buildHierarchyTree e po pp rf V = Inr t \<longrightarrow>
      n_depth t = 0 \<and> (\<forall>d \<in> set (below t). n_depth d = 1))"
  "(\<forall>cs. buildChildren e po pp rp nd V es = Inr cs \<longrightarrow>
      (\<forall>c \<in> set cs. n_depth c = nd + 1 \<and> (\<forall>d \<in> set (below c). n_depth d = 1)))"
proof (induction e po pp rf V and e po pp rp nd V es rule: buildHierarchyTree_buildChildren.induct)
  case (1 e po projectPath rootFile visited)
  show ?case
  proof (intro allI impI)
    fix t assume b: "buildHierarchyTree e po projectPath rootFile visited = Inr t"
    let ?rp = "p_join po projectPath rootFile"
    let ?pc = "fst (yaml_validateFile e ?rp)"
    from b have nv: "?rp \<notin> visited" and tr: "truthy_parsed ?pc"
      by (auto simp: Let_def split: if_splits)
    show "n_depth t = 0 \<and> (\<forall>d \<in> set (below t). n_depth d = 1)"
    proof (cases "structure_of ?pc")
      case None
      with b nv tr show ?thesis by (auto simp: Let_def)
    next
      case (Some entries)
      from b nv tr Some obtain cs where
        cs: "buildChildren e po projectPath ?rp 0 (insert ?rp visited) entries = Inr cs"
        and t: "t = HNode ?rp ?pc cs 0 None None"
        by (auto simp: Let_def split: sum.splits)
      from 1 [OF refl nv refl _ Some] tr cs
      have "\<forall>c \<in> set cs. n_depth c = 0 + 1 \<and> (\<forall>d \<in> set (below c). n_depth d = 1)"
        by simp
      then show ?thesis unfolding t by auto
    qed
  qed
next
  case (2 e po projectPath rootPath nodeDepth visited)
  then show ?case by simp
next
  case (3 e po projectPath rootPath nodeDepth visited itemName rest)
  then show ?case by simp
next
  case (4 e po projectPath rootPath nodeDepth visited itemName itemInfo rest)
  show ?case
  proof (cases "lmay_file itemInfo")
    case (JStr f)
    show ?thesis
    proof (cases "f = []")
      case True
      with JStr 4(9) show ?thesis by simp
    next
      case False
      with JStr have tr: "truthy (lmay_file itemInfo)" by simp
      let ?r = "buildHierarchyTree e po projectPath
                  (p_relative po projectPath (p_resolve po (p_dirname po rootPath) f)) visited"
      show ?thesis
      proof (cases ?r)
        case (Inl err)
        with tr JStr 4(6) [OF tr JStr refl Inl] show ?thesis
          by (simp add: Let_def del: buildHierarchyTree.simps)
      next
        case (Inr childNode)
        from 4(5) [OF tr JStr refl] Inr
        have c: "\<forall>d \<in> set (below childNode). n_depth d = 1" by simp
        from 4(7) [OF tr JStr refl Inr]
        have ih: "\<forall>cs. buildChildren e po projectPath rootPath nodeDepth visited rest = Inr cs \<longrightarrow>
            (\<forall>c \<in> set cs. n_depth c = nodeDepth + 1 \<and> (\<forall>d \<in> set (below c). n_depth d = 1))" .
        show ?thesis
        proof (cases "buildChildren e po projectPath rootPath nodeDepth visited rest")
          case l: (Inl err)
          with tr JStr Inr show ?thesis by (simp add: Let_def del: buildHierarchyTree.simps)
        next
          case r: (Inr others)
          with ih have "\<forall>c \<in> set others.
              n_depth c = nodeDepth + 1 \<and> (\<forall>d \<in> set (below c). n_depth d = 1)" by simp
          with c tr JStr Inr r show ?thesis
            by (simp add: Let_def below_relabel del: buildHierarchyTree.simps below.simps)
        qed
      qed
    qed
  qed (use 4 in \<open>auto split: if_splits\<close>)
qed

text \<open>
  The circular-reference \<open>Error\<close> leaves a call of \<open>buildHierarchyTree\<close> only when the call's
  own document is in \<open>visited\<close>, and the loop over the entries is left only by the
  \<open>TypeError\<close> of a \<open>null\<close> entry: every exception of a recursive call is caught.
\<close>

lemma build_errors:
  "(\<forall>x. buildHierarchyTree e po pp rf V = Inl (CircularReference x) \<longrightarrow>
      p_join po pp rf \<in> V \<and> x = p_join po pp rf)"
  "(\<forall>err. buildChildren e po pp rp nd V es = Inl err \<longrightarrow> err = NullEntryError)"
proof (induction e po pp rf V and e po pp rp nd V es
    rule: buildHierarchyTree_buildChildren.induct)
  case (1 e po projectPath rootFile visited)
  show ?case
  proof (intro allI impI)
    fix x assume b: "buildHierarchyTree e po projectPath rootFile visited = Inl (CircularReference x)"
    let ?rp = "p_join po projectPath rootFile"
    let ?pc = "fst (yaml_validateFile e ?rp)"
    show "?rp \<in> visited \<and> x = ?rp"
    proof (cases "?rp \<in> visited")
      case True
      with b show ?thesis by simp
    next
      case nv: False
      with b have tr: "truthy_parsed ?pc" by (auto simp: Let_def split: if_splits)
      show ?thesis
      proof (cases "structure_of ?pc")
        case None
        with b nv tr show ?thesis by (auto simp: Let_def)
      next
        case (Some entries)
        from b nv tr Some have
          "buildChildren e po projectPath ?rp 0 (insert ?rp visited) entries = Inl (CircularReference x)"
          by (auto simp: Let_def split: sum.splits)
        with 1 [OF refl nv refl _ Some] tr show ?thesis by auto
      qed
    qed
  qed
next
  case (4 e po projectPath rootPath nodeDepth visited itemName itemInfo rest)
  then show ?case
    by (cases "lmay_file itemInfo")
       (auto simp: Let_def simp del: buildHierarchyTree.simps split: if_splits sum.splits)
qed simp_all

text \<open>
  C4, as the code has it. The circular-reference \<open>Error\<close> is thrown by exactly those calls
  of \<open>buildHierarchyTree\<close> whose own document is already in \<open>visited\<close>, so never by the build
  that starts at the root with the empty set. In the loop over the entries, a link whose
  target is already in \<open>visited\<close> adds no child: the empty \<open>catch\<close> discards the exception of
  the recursive call, and the loop goes on as if the entry were not there. When the
  recursive call for a link returns a node, the rest of the loop runs with the same
  \<open>visited\<close> set as that call, whatever the call has added to its own copy. The hierarchy
  result has a \<open>hierarchy_build_error\<close> only when the build from the root throws, and what it
  throws then is not the circular-reference \<open>Error\<close>.
\<close>

theorem buildHierarchyTree_cycle_pruned:
  "(buildHierarchyTree e po projectPath rootFile visited = Inl (CircularReference x)
      \<longleftrightarrow> p_join po projectPath rootFile \<in> visited \<and> x = p_join po projectPath rootFile)
   \<and> buildHierarchyTree e po projectPath rootFile {} \<noteq> Inl (CircularReference x)
   \<and> (lmay_file info = JStr f \<and> f \<noteq> []
        \<and> childRootPath po projectPath rootPath f \<in> visited \<longrightarrow>
      buildChildren e po projectPath rootPath nodeDepth visited ((name, Entry info) # rest)
        = buildChildren e po projectPath rootPath nodeDepth visited rest)
   \<and> (lmay_file info = JStr f \<and> f \<noteq> []
        \<and> buildHierarchyTree e po projectPath
            (p_relative po projectPath (p_resolve po (p_dirname po rootPath) f)) visited
          = Inr child
        \<and> buildChildren e po projectPath rootPath nodeDepth visited rest = Inr others \<longrightarrow>
      buildChildren e po projectPath rootPath nodeDepth visited ((name, Entry info) # rest)
        = Inr (HNode (n_file child) (n_data child) (n_children child) (nodeDepth + 1)
                 (Some rootPath) (Some name) # others))
   \<and> (\<forall>finding \<in> set (fst (hierarchyFindings e po projectPath rootFile)).
         f_type finding = ''hierarchy_build_error'' \<longrightarrow>
         (\<exists>err. buildHierarchyTree e po projectPath rootFile {} = Inl err
            \<and> err \<noteq> CircularReference x))"
proof (intro conjI)
  have never: "buildHierarchyTree e po projectPath rootFile {} \<noteq> Inl (CircularReference y)" for y
    using build_errors(1) [of e po projectPath rootFile "{}"] by auto
  show "buildHierarchyTree e po projectPath rootFile visited = Inl (CircularReference x)
      \<longleftrightarrow> p_join po projectPath rootFile \<in> visited \<and> x = p_join po projectPath rootFile"
  proof
    assume "buildHierarchyTree e po projectPath rootFile visited = Inl (CircularReference x)"
    with build_errors(1) [of e po projectPath rootFile visited]
    show "p_join po projectPath rootFile \<in> visited \<and> x = p_join po projectPath rootFile"
      by blast
  next
    assume "p_join po projectPath rootFile \<in> visited \<and> x = p_join po projectPath rootFile"
    then show "buildHierarchyTree e po projectPath rootFile visited = Inl (CircularReference x)"
      by simp
  qed
  show "buildHierarchyTree e po projectPath rootFile {} \<noteq> Inl (CircularReference x)"
    by (rule never)
  show "lmay_file info = JStr f \<and> f \<noteq> []
        \<and> childRootPath po projectPath rootPath f \<in> visited \<longrightarrow>
      buildChildren e po projectPath rootPath nodeDepth visited ((name, Entry info) # rest)
        = buildChildren e po projectPath rootPath nodeDepth visited rest"
    by (simp add: Let_def childRootPath_def)
  show "lmay_file info = JStr f \<and> f \<noteq> []
        \<and> buildHierarchyTree e po projectPath
            (p_relative po projectPath (p_resolve po (p_dirname po rootPath) f)) visited
          = Inr child
        \<and> buildChildren e po projectPath rootPath nodeDepth visited rest = Inr others \<longrightarrow>
      buildChildren e po projectPath rootPath nodeDepth visited ((name, Entry info) # rest)
        = Inr (HNode (n_file child) (n_data child) (n_children child) (nodeDepth + 1)
                 (Some rootPath) (Some name) # others)"
    by (simp add: Let_def del: buildHierarchyTree.simps)
  show "\<forall>finding \<in> set (fst (hierarchyFindings e po projectPath rootFile)).
         f_type finding = ''hierarchy_build_error'' \<longrightarrow>
         (\<exists>err. buildHierarchyTree e po projectPath rootFile {} = Inl err
            \<and> err \<noteq> CircularReference x)"
  proof (cases "buildHierarchyTree e po projectPath rootFile {}")
    case (Inl err)
    with never [of x] show ?thesis by simp
  next
    case (Inr t)
    have "list_all hierarchy_error_type (fst (validateHierarchyConsistency po 10 t ([], [])))"
      by (rule consistency_error_types) simp
    then have "f_type finding \<noteq> ''hierarchy_build_error''"
      if "finding \<in> set (fst (validateHierarchyConsistency po 10 t ([], [])))" for finding
      using that by (auto simp: list_all_iff hierarchy_error_type_def)
    with Inr show ?thesis
      by (auto simp: hierarchyFindings_def simp del: buildHierarchyTree.simps split: prod.splits)
  qed
qed

text \<open>
  In the project \<open>root.lmay \<rightarrow> a.lmay \<rightarrow> b.lmay \<rightarrow> root.lmay\<close> the link of \<open>b.lmay\<close> leads back
  to the root, which is in \<open>visited\<close>, and adds no child. In the project where \<open>root.lmay\<close>
  links to \<open>a.lmay\<close> and \<open>b.lmay\<close> and both link to \<open>c.lmay\<close>, the branch of \<open>a.lmay\<close> and the
  branch of \<open>b.lmay\<close> each hold a node for \<open>c.lmay\<close>. A \<open>root.lmay\<close> whose \<open>structure\<close> has a
  \<open>null\<close> entry can be parsed, and its build throws the \<open>TypeError\<close> of the property read,
  which the hierarchy result reports as \<open>hierarchy_build_error\<close>.
\<close>

theorem buildHierarchyTree_cycle_pruned_witness:
  "childRootPath flat_ops ''/p'' ''/p/b.lmay'' ''root.lmay''
     \<in> {''/p/root.lmay'', ''/p/a.lmay'', ''/p/b.lmay''}
   \<and> buildChildren cycle_env flat_ops ''/p'' ''/p/b.lmay'' 0
        {''/p/root.lmay'', ''/p/a.lmay'', ''/p/b.lmay''} [(''r'', link ''root.lmay'')] = Inr []
   \<and> buildHierarchyTree diamond_env flat_ops ''/p'' ''a.lmay'' {''/p/root.lmay''}
       = Inr (HNode ''/p/a.lmay'' (doc [(''c'', link ''c.lmay'')])
                [HNode ''/p/c.lmay'' no_links [] 1 (Some ''/p/a.lmay'') (Some ''c'')]
                0 None None)
   \<and> buildChildren diamond_env flat_ops ''/p'' ''/p/root.lmay'' 0 {''/p/root.lmay''}
        [(''b'', link ''b.lmay'')] = Inr [diamond_branch ''b'' ''b.lmay'']
   \<and> buildChildren diamond_env flat_ops ''/p'' ''/p/root.lmay'' 0 {''/p/root.lmay''}
        [(''a'', link ''a.lmay''), (''b'', link ''b.lmay'')]
       = Inr [diamond_branch ''a'' ''a.lmay'', diamond_branch ''b'' ''b.lmay'']
   \<and> map f_type (fst (hierarchyFindings null_entry_env flat_ops ''/p'' ''root.lmay''))
       = [''hierarchy_build_error'']
   \<and> truthy_parsed (fst (yaml_validateFile null_entry_env ''/p/root.lmay''))
   \<and> buildHierarchyTree null_entry_env flat_ops ''/p'' ''root.lmay'' {} = Inl NullEntryError"
proof -
  have h1: "childRootPath flat_ops ''/p'' ''/p/b.lmay'' ''root.lmay''
      \<in> {''/p/root.lmay'', ''/p/a.lmay'', ''/p/b.lmay''}"
    by (simp add: childRootPath_def flat_ops_def)
  have l: "link g = Entry (link_info g)" "lmay_file (link_info g) = JStr g" for g
    by (simp_all add: link_def link_info_def)
  have n1: "''root.lmay'' \<noteq> []" and n2: "''a.lmay'' \<noteq> []"
    by simp_all
  have a: "buildHierarchyTree diamond_env flat_ops ''/p''
      (p_relative flat_ops ''/p'' (p_resolve flat_ops (p_dirname flat_ops ''/p/root.lmay'') ''a.lmay''))
      {''/p/root.lmay''}
       = Inr (HNode ''/p/a.lmay'' (doc [(''c'', link ''c.lmay'')])
                [HNode ''/p/c.lmay'' no_links [] 1 (Some ''/p/a.lmay'') (Some ''c'')]
                0 None None)"
    by code_simp
  have a': "buildHierarchyTree diamond_env flat_ops ''/p'' ''a.lmay'' {''/p/root.lmay''}
       = Inr (HNode ''/p/a.lmay'' (doc [(''c'', link ''c.lmay'')])
                [HNode ''/p/c.lmay'' no_links [] 1 (Some ''/p/a.lmay'') (Some ''c'')]
                0 None None)"
    by code_simp
  have b: "buildChildren diamond_env flat_ops ''/p'' ''/p/root.lmay'' 0 {''/p/root.lmay''}
        [(''b'', Entry (link_info ''b.lmay''))] = Inr [diamond_branch ''b'' ''b.lmay'']"
    by code_simp
  have f: "map f_type (fst (hierarchyFindings null_entry_env flat_ops ''/p'' ''root.lmay''))
       = [''hierarchy_build_error'']"
    by code_simp
  have p: "truthy_parsed (fst (yaml_validateFile null_entry_env ''/p/root.lmay''))"
    by code_simp
  note t1 = buildHierarchyTree_cycle_pruned [where e = cycle_env and po = flat_ops
      and projectPath = "''/p''" and rootFile = "''root.lmay''" and x = "''/p/root.lmay''"
      and info = "link_info ''root.lmay''" and f = "''root.lmay''" and rootPath = "''/p/b.lmay''"
      and visited = "{''/p/root.lmay'', ''/p/a.lmay'', ''/p/b.lmay''}" and nodeDepth = 0
      and name = "''r''" and rest = "[]"]
  note t2 = buildHierarchyTree_cycle_pruned [where e = diamond_env and po = flat_ops
      and projectPath = "''/p''" and rootFile = "''root.lmay''" and x = "''/p/root.lmay''"
      and info = "link_info ''a.lmay''" and f = "''a.lmay''" and rootPath = "''/p/root.lmay''"
      and visited = "{''/p/root.lmay''}" and nodeDepth = 0
      and name = "''a''" and rest = "[(''b'', Entry (link_info ''b.lmay''))]"]
  have c1: "buildChildren cycle_env flat_ops ''/p'' ''/p/b.lmay'' 0
        {''/p/root.lmay'', ''/p/a.lmay'', ''/p/b.lmay''} [(''r'', link ''root.lmay'')] = Inr []"
    using t1 [THEN conjunct2, THEN conjunct2, THEN conjunct1, THEN mp,
        OF conjI [OF l(2) conjI [OF n1 h1]]]
    by (simp only: buildChildren.simps(1) l(1))
  have c2: "buildChildren diamond_env flat_ops ''/p'' ''/p/root.lmay'' 0 {''/p/root.lmay''}
        [(''a'', link ''a.lmay''), (''b'', link ''b.lmay'')]
       = Inr [diamond_branch ''a'' ''a.lmay'', diamond_branch ''b'' ''b.lmay'']"
    using t2 [THEN conjunct2, THEN conjunct2, THEN conjunct2, THEN conjunct1, THEN mp,
        OF conjI [OF l(2) conjI [OF n2 conjI [OF a b]]]]
    by (simp add: l(1) diamond_branch_def del: buildChildren.simps buildHierarchyTree.simps)
  have c3': "buildHierarchyTree null_entry_env flat_ops ''/p'' ''root.lmay'' {} = Inl NullEntryError"
    by code_simp
  show ?thesis
    using h1 c1 a' b c2 f p c3' by (simp add: l(1) del: buildChildren.simps buildHierarchyTree.simps)
qed

text \<open>
  C4 as stated fails on the project \<open>root.lmay \<rightarrow> a.lmay \<rightarrow> b.lmay \<rightarrow> root.lmay\<close>: the
  build of \<open>root.lmay\<close> on the path \<open>root.lmay, a.lmay, b.lmay\<close> throws, but the build from
  the root returns a tree and the hierarchy validation reports no error at all.
\<close>

theorem hierarchy_cycle_no_error:
  "buildHierarchyTree cycle_env flat_ops ''/p'' ''root.lmay''
       {''/p/root.lmay'', ''/p/a.lmay'', ''/p/b.lmay''}
     = Inl (CircularReference ''/p/root.lmay'')
   \<and> map_sum id depth_table (buildHierarchyTree cycle_env flat_ops ''/p'' ''root.lmay'' {})
     = Inr [(''/p/root.lmay'', 0), (''/p/a.lmay'', 1), (''/p/b.lmay'', 1)]
   \<and> fst (hierarchyFindings cycle_env flat_ops ''/p'' ''root.lmay'') = []"
  by code_simp

text \<open>
  For a node with hierarchy metadata, \<open>validateHierarchyMetadata\<close> pushes exactly one
  \<open>incorrect_hierarchy_depth\<close> when the declared depth differs from the stored one, and none
  otherwise.
\<close>

lemma declared_depth_error_count:
  "length (filter (\<lambda>f. f_type f = ''incorrect_hierarchy_depth'')
             (validateHierarchyMetadata po node hier))
     = (if h_depth hier \<noteq> JUndefined \<and> h_depth hier \<noteq> JNum (int (n_depth node)) then 1 else 0)"
  by (simp add: validateHierarchyMetadata_def mk_finding_def split: option.splits)

text \<open>
  C5 fails on the chain \<open>root.lmay \<rightarrow> a.lmay \<rightarrow> b.lmay\<close>: \<open>b.lmay\<close> is two links away from
  the root but its node has depth 1, and its correct declaration \<open>hierarchy.depth: 2\<close> is
  reported as \<open>incorrect_hierarchy_depth\<close>.
\<close>

theorem chain_grandchild_depth:
  "map_sum id depth_table (buildHierarchyTree chain_env flat_ops ''/p'' ''root.lmay'' {})
     = Inr [(''/p/root.lmay'', 0), (''/p/a.lmay'', 1), (''/p/b.lmay'', 1)]
   \<and> map_sum id (link_hops 0) (buildHierarchyTree chain_env flat_ops ''/p'' ''root.lmay'' {})
     = Inr [(''/p/root.lmay'', 0), (''/p/a.lmay'', 1), (''/p/b.lmay'', 2)]
   \<and> fst (hierarchyFindings chain_env flat_ops ''/p'' ''root.lmay'')
     = [mk_finding ''incorrect_hierarchy_depth'' (Some ''/p/b.lmay'') (Some ''/hierarchy/depth'')]"
  by code_simp

text \<open>
  On the counts that it is given, \<open>analyzeDepthDistribution\<close> applies the thresholds: the
  unbalanced levels are the levels with more than three times the count of the level
  before them in \<open>levels\<close>, and \<open>flat_hierarchy\<close> is pushed once exactly when no level is
  above 1 and level 1 has more than 10 nodes.
\<close>

lemma unbalanced_loop_levels:
  "unbalanced_loop lc levels
     = map (\<lambda>(previousLevel, currentLevel).
              \<lparr>f_type = ''unbalanced_hierarchy'', f_file = None, f_path = None, f_cycle = None,
               f_level = Some currentLevel\<rparr>)
         (filter (\<lambda>(previousLevel, currentLevel).
                    the (map_of lc currentLevel) > the (map_of lc previousLevel) * 3)
            (zip levels (tl levels)))"
  by (induction lc levels rule: unbalanced_loop.induct) auto

lemma flat_hierarchy_count:
  "length (filter (\<lambda>f. f_type f = ''flat_hierarchy'') (analyzeDepthDistribution lc []))
     = (if fold max (sort (map fst lc)) 0 \<le> 1 \<and> (\<exists>c. map_of lc 1 = Some c \<and> 10 < c)
        then 1 else 0)"
  by (auto simp: analyzeDepthDistribution_def Let_def unbalanced_loop_levels mk_finding_def
      filter_map comp_def split: option.splits prod.splits)

text \<open>
  C9 fails on the project in which \<open>root.lmay\<close> links to \<open>a.lmay\<close> and \<open>a.lmay\<close> to four
  leaves: level 2 has four nodes and level 1 has one, but the only warning is an
  \<open>unbalanced_hierarchy\<close> for level 1, since the five nodes below the root are all
  counted at depth 1.
\<close>

theorem fan_unbalanced_level:
  "map_sum id (link_hops 0) (buildHierarchyTree fan_env flat_ops ''/p'' ''root.lmay'' {})
     = Inr [(''/p/root.lmay'', 0), (''/p/a.lmay'', 1), (''/p/b1.lmay'', 2), (''/p/b2.lmay'', 2),
            (''/p/b3.lmay'', 2), (''/p/b4.lmay'', 2)]
   \<and> snd (hierarchyFindings fan_env flat_ops ''/p'' ''root.lmay'')
     = [\<lparr>f_type = ''unbalanced_hierarchy'', f_file = None, f_path = None, f_cycle = None,
         f_level = Some 1\<rparr>]"
  by code_simp

subsection \<open>Obsolescence\<close>

lemma unresolved_iff:
  "map_of (files e) (le_path file) = Some (Readable content) \<Longrightarrow>
   unresolved_references e pathExists po file = obsolete_condition e pathExists po file content"
  by (auto simp: unresolved_references_def obsolete_condition_def list_ex_iff list_all_iff)

lemma analyze_files_step:
  "analyze_files e pathExists po thresholdMs now (file # rest) a =
     (if exceeds (now - le_modified file) thresholdMs then
        (case map_of (files e) (le_path file) of
           Some (Readable content) \<Rightarrow>
             if obsolete_condition e pathExists po file content then
               analyze_files e pathExists po thresholdMs now rest
                 (a\<lparr>an_obsolete := an_obsolete a
                      @ [\<lparr>ob_file = file, ob_reason = ''References non-existent files'',
                           ob_age = round_days (now - le_modified file)\<rparr>]\<rparr>)
             else
               analyze_files e pathExists po thresholdMs now rest
                 (a\<lparr>an_outdated := an_outdated a
                      @ [\<lparr>od_file = file, od_age = round_days (now - le_modified file)\<rparr>]\<rparr>)
         | _ \<Rightarrow> Inl (ReadError (le_path file)))
      else
        analyze_files e pathExists po thresholdMs now rest (a\<lparr>an_valid := an_valid a @ [file]\<rparr>))"
  by (simp add: Let_def obsolete_condition_def split: option.splits fs_entry.splits)

lemma analyze_files_sets:
  "analyze_files e pathExists po thresholdMs now fs a = Inr a' \<Longrightarrow>
     set (an_valid a') = set (an_valid a)
        \<union> {f \<in> set fs. \<not> exceeds (now - le_modified f) thresholdMs}
   \<and> ob_file ` set (an_obsolete a') = ob_file ` set (an_obsolete a)
        \<union> {f \<in> set fs. exceeds (now - le_modified f) thresholdMs
                       \<and> unresolved_references e pathExists po f}
   \<and> od_file ` set (an_outdated a') = od_file ` set (an_outdated a)
        \<union> {f \<in> set fs. exceeds (now - le_modified f) thresholdMs
                       \<and> \<not> unresolved_references e pathExists po f}"
proof (induction fs arbitrary: a)
  case Nil
  then show ?case by simp
next
  case (Cons f fs)
  show ?case
  proof (cases "exceeds (now - le_modified f) thresholdMs")
    case False
    with Cons.prems have "analyze_files e pathExists po thresholdMs now fs
        (a\<lparr>an_valid := an_valid a @ [f]\<rparr>) = Inr a'"
      by (simp only: analyze_files_step if_False)
    from Cons.IH [OF this] False show ?thesis by auto
  next
    case True
    with Cons.prems obtain content where c: "map_of (files e) (le_path f) = Some (Readable content)"
      by (auto simp only: analyze_files_step if_True split: option.splits fs_entry.splits)
    show ?thesis
    proof (cases "obsolete_condition e pathExists po f content")
      case oc: True
      with Cons.prems True c have "analyze_files e pathExists po thresholdMs now fs
          (a\<lparr>an_obsolete := an_obsolete a
               @ [\<lparr>ob_file = f, ob_reason = ''References non-existent files'',
                    ob_age = round_days (now - le_modified f)\<rparr>]\<rparr>) = Inr a'"
        by (simp add: analyze_files_step del: analyze_files.simps)
      from Cons.IH [OF this] True oc unresolved_iff [OF c, of pathExists po]
      show ?thesis by auto
    next
      case oc: False
      with Cons.prems True c have "analyze_files e pathExists po thresholdMs now fs
          (a\<lparr>an_outdated := an_outdated a
               @ [\<lparr>od_file = f, od_age = round_days (now - le_modified f)\<rparr>]\<rparr>) = Inr a'"
        by (simp add: analyze_files_step del: analyze_files.simps)
      from Cons.IH [OF this] True oc unresolved_iff [OF c, of pathExists po]
      show ?thesis by auto
    qed
  qed
qed

lemma analyze_files_total:
  "\<forall>f \<in> set fs. \<exists>content. map_of (files e) (le_path f) = Some (Readable content) \<Longrightarrow>
   \<exists>a'. analyze_files e pathExists po thresholdMs now fs a = Inr a'"
proof (induction fs arbitrary: a)
  case Nil
  then show ?case by simp
next
  case (Cons f fs)
  then obtain content where c: "map_of (files e) (le_path f) = Some (Readable content)"
    by auto
  from Cons have ih: "\<exists>a'. analyze_files e pathExists po thresholdMs now fs b = Inr a'" for b
    by simp
  show ?case
    using c ih by (simp add: analyze_files_step del: analyze_files.simps)
qed

text \<open>
  C3. When every listed document can be read, \<open>analyzeObsolescence\<close> returns an analysis,
  and in it a document whose age does not exceed \<open>thresholdDays\<close> days is in \<open>valid\<close> and in
  neither \<open>obsolete\<close> nor \<open>outdated\<close>, whatever its references; a document over the threshold
  is not in \<open>valid\<close>, is in \<open>obsolete\<close> exactly when it has at least one extracted reference
  and none of them resolves, and is in \<open>outdated\<close> exactly otherwise.
\<close>

theorem obsolescence_classification:
  assumes "\<forall>f \<in> set lmayFiles. \<exists>content. map_of (files e) (le_path f) = Some (Readable content)"
  shows "\<exists>a. analyzeObsolescence e pathExists po (Some thresholdDays) now lmayFiles = Inr a
      \<and> (\<forall>file \<in> set lmayFiles.
            (now - le_modified file \<le> thresholdDays * day_ms \<longrightarrow>
               file \<in> set (an_valid a)
               \<and> file \<notin> ob_file ` set (an_obsolete a)
               \<and> file \<notin> od_file ` set (an_outdated a))
          \<and> (now - le_modified file > thresholdDays * day_ms \<longrightarrow>
               file \<notin> set (an_valid a)
               \<and> (file \<in> ob_file ` set (an_obsolete a)
                    \<longleftrightarrow> unresolved_references e pathExists po file)
               \<and> (file \<in> od_file ` set (an_outdated a)
                    \<longleftrightarrow> \<not> unresolved_references e pathExists po file)))"
proof -
  from analyze_files_total [OF assms]
  obtain a where a: "analyzeObsolescence e pathExists po (Some thresholdDays) now lmayFiles = Inr a"
    unfolding analyzeObsolescence_def by blast
  from analyze_files_sets [OF a [unfolded analyzeObsolescence_def]]
  have "\<forall>file \<in> set lmayFiles.
            (now - le_modified file \<le> thresholdDays * day_ms \<longrightarrow>
               file \<in> set (an_valid a)
               \<and> file \<notin> ob_file ` set (an_obsolete a)
               \<and> file \<notin> od_file ` set (an_outdated a))
          \<and> (now - le_modified file > thresholdDays * day_ms \<longrightarrow>
               file \<notin> set (an_valid a)
               \<and> (file \<in> ob_file ` set (an_obsolete a)
                    \<longleftrightarrow> unresolved_references e pathExists po file)
               \<and> (file \<in> od_file ` set (an_outdated a)
                    \<longleftrightarrow> \<not> unresolved_references e pathExists po file))"
    by (auto simp: exceeds_def)
  with a show ?thesis by blast
qed

text \<open>
  Scenario F of the specification: the document is 45 days old, the threshold is 30 days
  and its only reference does not exist.
\<close>

theorem obsolescence_classification_witness:
  "map_of (files old_env) (le_path old_file) = Some (Readable ''path: src'')
   \<and> 45 * day_ms - le_modified old_file > 30 * day_ms
   \<and> unresolved_references old_env (\<lambda>p. False) flat_ops old_file
   \<and> analyzeObsolescence old_env (\<lambda>p. False) flat_ops (Some 30) (45 * day_ms) [old_file]
       = Inr \<lparr>an_obsolete = [\<lparr>ob_file = old_file, ob_reason = ''References non-existent files'',
                                ob_age = 45\<rparr>],
              an_outdated = [], an_valid = []\<rparr>"
proof -
  have h1: "map_of (files old_env) (le_path old_file) = Some (Readable ''path: src'')"
    by (simp add: old_env_def old_file_def)
  then have h: "\<forall>f \<in> set [old_file].
      \<exists>content. map_of (files old_env) (le_path f) = Some (Readable content)"
    by simp
  have h2: "45 * day_ms - le_modified old_file > 30 * day_ms"
    by (simp add: day_ms_def old_file_def)
  have h3: "unresolved_references old_env (\<lambda>p. False) flat_ops old_file"
    by code_simp
  have v: "analyzeObsolescence old_env (\<lambda>p. False) flat_ops (Some 30) (45 * day_ms) [old_file]
       = Inr \<lparr>an_obsolete = [\<lparr>ob_file = old_file, ob_reason = ''References non-existent files'',
                                ob_age = 45\<rparr>],
              an_outdated = [], an_valid = []\<rparr>"
    by code_simp
  show ?thesis
    using h1 h2 h3 v obsolescence_classification [OF h, of "\<lambda>p. False" flat_ops 30 "45 * day_ms"]
    by simp
qed

subsection \<open>The file count of a file entry\<close>

text \<open>
  \<open>validateStructureItem\<close> pushes \<open>invalid_file_count\<close> exactly for an entry of type \<open>file\<close>
  whose \<open>file_count\<close> is truthy and not the number 1.
\<close>

lemma invalid_file_count_iff:
  "fst (validateStructureItem isAbsolute name info filePath) \<noteq> []
     \<longleftrightarrow> item_type info = Some ''file'' \<and> truthy (file_count info) \<and> file_count info \<noteq> JNum 1"
  by (simp add: validateStructureItem_def Let_def)

text \<open>
  C7 fails for \<open>file_count: 0\<close>: the entry is of type \<open>file\<close>, carries a \<open>file_count\<close> that
  is not 1, and no error is pushed.
\<close>

theorem file_count_zero_accepted:
  "item_type zero_count_item = Some ''file''
   \<and> file_count zero_count_item = JNum 0
   \<and> fst (validateStructureItem posix_isAbsolute ''readme'' zero_count_item ''/p/root.lmay'') = []"
  by (simp add: zero_count_item_def validateStructureItem_def)

subsection \<open>The success contract\<close>

lemma valid_finalizeResults: "valid (finalizeResults r) = (errors r = [])"
  by (simp add: finalizeResults_def Let_def)

lemma errors_finalizeResults: "errors (finalizeResults r) = errors r"
  by (simp add: finalizeResults_def Let_def)

lemma validateFile_is_finalized:
  "validateFile e sr p = Returns res \<Longrightarrow> \<exists>r. res = finalizeResults r"
  by (auto simp: validateFile_def Let_def split: prod.splits if_splits outcome.splits)

lemma validateProject_is_finalized:
  "validateProject e po opts sr rr pp rf = Returns res \<Longrightarrow> \<exists>r. res = finalizeResults r"
  by (auto simp: validateProject_def Let_def split: if_splits outcome.splits)

lemma validation_run_is_finalized:
  "validation_run e po ce sr rr file opts = Returns res \<Longrightarrow> \<exists>r. res = finalizeResults r"
  by (auto simp: validation_run_def Let_def
      dest: validateFile_is_finalized validateProject_is_finalized split: if_splits)

lemma finalized_valid: "res = finalizeResults r \<Longrightarrow> valid res \<longleftrightarrow> errors res = []"
  by (simp add: valid_finalizeResults errors_finalizeResults)

text \<open>
  C6, as the code has it. The result that a validation returns, of a single file or of a
  project, has \<open>valid\<close> true exactly when its error list is empty, whatever its warnings
  are. The command ends with \<open>process.exit(0)\<close> exactly when the validation returns a
  result without errors and the report, if one is asked for, can be written. It ends
  with \<open>process.exit(1)\<close> exactly when the validation returns a result with errors, or the
  report cannot be written, or the validation throws. When the validation does not
  return, neither call of \<open>process.exit\<close> is reached.
\<close>

theorem success_contract:
  "(validateFile e schema_report filePath = Returns res
      \<or> validateProject e po opts schema_report reference_report projectPath rootFile
          = Returns res
      \<or> validation_run e po ce schema_report reference_report fileArg cli_opts = Returns res
    \<longrightarrow> (valid res \<longleftrightarrow> errors res = []))
   \<and> valid (finalizeResults (r0\<lparr>warnings := ws\<rparr>)) = valid (finalizeResults r0)
   \<and> (validateLMAY e po ce schema_report reference_report fileArg cli_opts = Exit 0
        \<longleftrightarrow> (\<exists>r. validation_run e po ce schema_report reference_report fileArg cli_opts
                    = Returns r
                  \<and> errors r = [] \<and> report_saved ce cli_opts))
   \<and> (validateLMAY e po ce schema_report reference_report fileArg cli_opts = Exit 1
        \<longleftrightarrow> (\<exists>r. validation_run e po ce schema_report reference_report fileArg cli_opts
                    = Returns r
                  \<and> (errors r \<noteq> [] \<or> \<not> report_saved ce cli_opts))
          \<or> (\<exists>err. validation_run e po ce schema_report reference_report fileArg cli_opts
                    = Throws err))
   \<and> (validateLMAY e po ce schema_report reference_report fileArg cli_opts = NoExit
        \<longleftrightarrow> validation_run e po ce schema_report reference_report fileArg cli_opts = Diverges)"
proof -
  let ?run = "validation_run e po ce schema_report reference_report fileArg cli_opts"
  have v: "valid r \<longleftrightarrow> errors r = []" if "?run = Returns r" for r
    using validation_run_is_finalized [OF that] finalized_valid by blast
  have c1: "validateFile e schema_report filePath = Returns res
      \<or> validateProject e po opts schema_report reference_report projectPath rootFile
          = Returns res
      \<or> ?run = Returns res
    \<longrightarrow> (valid res \<longleftrightarrow> errors res = [])"
  proof
    assume "validateFile e schema_report filePath = Returns res
      \<or> validateProject e po opts schema_report reference_report projectPath rootFile
          = Returns res
      \<or> ?run = Returns res"
    then obtain r where "res = finalizeResults r"
      using validateFile_is_finalized validateProject_is_finalized validation_run_is_finalized
      by metis
    then show "valid res \<longleftrightarrow> errors res = []"
      by (rule finalized_valid)
  qed
  have c2: "valid (finalizeResults (r0\<lparr>warnings := ws\<rparr>)) = valid (finalizeResults r0)"
    by (simp add: valid_finalizeResults)
  have c3: "validateLMAY e po ce schema_report reference_report fileArg cli_opts = Exit 0
        \<longleftrightarrow> (\<exists>r. ?run = Returns r \<and> errors r = [] \<and> report_saved ce cli_opts)"
    by (cases ?run) (auto simp: validateLMAY_def v)
  have c4: "validateLMAY e po ce schema_report reference_report fileArg cli_opts = Exit 1
        \<longleftrightarrow> (\<exists>r. ?run = Returns r \<and> (errors r \<noteq> [] \<or> \<not> report_saved ce cli_opts))
          \<or> (\<exists>err. ?run = Throws err)"
    by (cases ?run) (auto simp: validateLMAY_def v)
  have c5: "validateLMAY e po ce schema_report reference_report fileArg cli_opts = NoExit
        \<longleftrightarrow> ?run = Diverges"
    by (cases ?run) (auto simp: validateLMAY_def)
  from c1 c2 c3 c4 c5 show ?thesis by blast
qed

lemma outcome_value:
  "map_outcome g run = Returns v \<Longrightarrow> \<exists>r. run = Returns r \<and> g r = v"
  by (cases run) auto

text \<open>
  In the directory \<open>/p\<close>, \<open>lmay-validate root.lmay\<close> on a \<open>root.lmay\<close> holding \<open>null\<close>
  returns a result without errors, which is valid, and ends with \<open>process.exit(0)\<close>;
  \<open>lmay-validate --project /p --no-references\<close> on the project \<open>root.lmay \<rightarrow> a.lmay \<rightarrow> b.lmay\<close> returns a
  result with one error, which is not valid, and ends with \<open>process.exit(1)\<close>.
\<close>

theorem success_contract_witness:
  "map_outcome errors (validation_run null_env flat_ops p_cli no_schema_errors
       no_reference_errors (Some ''root.lmay'') plain_options) = Returns []
   \<and> map_outcome valid (validation_run null_env flat_ops p_cli no_schema_errors
       no_reference_errors (Some ''root.lmay'') plain_options) = Returns True
   \<and> report_saved p_cli plain_options
   \<and> validateLMAY null_env flat_ops p_cli no_schema_errors no_reference_errors
       (Some ''root.lmay'') plain_options = Exit 0
   \<and> map_outcome (\<lambda>r. length (errors r)) (validation_run chain_env flat_ops p_cli
       no_schema_errors no_reference_errors None project_options) = Returns 1
   \<and> map_outcome valid (validation_run chain_env flat_ops p_cli no_schema_errors
       no_reference_errors None project_options) = Returns False
   \<and> validateLMAY chain_env flat_ops p_cli no_schema_errors no_reference_errors
       None project_options = Exit 1"
proof -
  let ?run1 = "validation_run null_env flat_ops p_cli no_schema_errors no_reference_errors
       (Some ''root.lmay'') plain_options"
  let ?run2 = "validation_run chain_env flat_ops p_cli no_schema_errors no_reference_errors
       None project_options"
  have e1: "map_outcome errors ?run1 = Returns []"
    by code_simp
  have s1: "report_saved p_cli plain_options"
    by code_simp
  have e2: "map_outcome (\<lambda>r. length (errors r)) ?run2 = Returns 1"
    by code_simp
  from outcome_value [OF e1] obtain r1 where r1: "?run1 = Returns r1" "errors r1 = []"
    by blast
  from outcome_value [OF e2] obtain r2 where r2: "?run2 = Returns r2" "length (errors r2) = 1"
    by blast
  note t1 = success_contract [where e = null_env and po = flat_ops and ce = p_cli
      and schema_report = no_schema_errors and reference_report = no_reference_errors
      and fileArg = "Some ''root.lmay''" and cli_opts = plain_options and res = r1]
  note t2 = success_contract [where e = chain_env and po = flat_ops and ce = p_cli
      and schema_report = no_schema_errors and reference_report = no_reference_errors
      and fileArg = None and cli_opts = project_options and res = r2]
  from t1 r1 have v1: "valid r1"
    by blast
  from t1 r1 s1 have x1: "validateLMAY null_env flat_ops p_cli no_schema_errors
      no_reference_errors (Some ''root.lmay'') plain_options = Exit 0"
    by blast
  from r2 have n2: "errors r2 \<noteq> []"
    by auto
  from t2 r2 n2 have v2: "\<not> valid r2"
    by blast
  from t2 r2 n2 have x2: "validateLMAY chain_env flat_ops p_cli no_schema_errors
      no_reference_errors None project_options = Exit 1"
    by blast
  show ?thesis
    using e1 s1 e2 x1 x2 v1 v2 r1(1) r2(1) by simp
qed

text \<open>
  C6 as stated fails for \<open>lmay-validate root.lmay --output /reports/out.txt\<close> in the
  directory \<open>/p\<close>, where \<open>root.lmay\<close> holds \<open>null\<close> and \<open>/reports\<close> does not exist: the
  validation returns a result that is valid and has no errors, \<open>saveReport\<close> throws, and
  the command ends with \<open>process.exit(1)\<close>.
\<close>

theorem valid_run_exits_1:
  "map_outcome valid (validation_run null_env flat_ops p_cli no_schema_errors
       no_reference_errors (Some ''root.lmay'') report_options) = Returns True
   \<and> map_outcome errors (validation_run null_env flat_ops p_cli no_schema_errors
       no_reference_errors (Some ''root.lmay'') report_options) = Returns []
   \<and> validateLMAY null_env flat_ops p_cli no_schema_errors no_reference_errors
       (Some ''root.lmay'') report_options = Exit 1"
  by code_simp

end
